theory Spec2Isabelle
  imports Main "HOL-Library.Sublist" "HOL-Library.Char_ord" "HOL-Library.List_Lexorder"
    "HOL-Library.Product_Lexorder"
begin

section \<open>Qt value types used by DataManager.cpp\<close>

subsection \<open>QString\<close>

text \<open>
  \<open>QString::split(sep, Qt::KeepEmptyParts)\<close> for a one-character separator: the
  fields between the separators, empty fields kept; the empty string has one (empty) field.
\<close>

fun QString_split :: "char \<Rightarrow> string \<Rightarrow> string list" where
  "QString_split sep [] = [[]]"
| "QString_split sep (c # cs) =
     (if c = sep then [] # QString_split sep cs
      else (case QString_split sep cs of
              [] \<Rightarrow> [[c]]
            | field # fields \<Rightarrow> (c # field) # fields))"

fun QString_join :: "char \<Rightarrow> string list \<Rightarrow> string" where
  "QString_join sep [] = []"
| "QString_join sep [f] = f"
| "QString_join sep (f # g # fs) = f @ sep # QString_join sep (g # fs)"

text \<open>
  \<open>QString::section(sep, start, end)\<close> with the default flags: the fields \<open>start\<close> to
  \<open>end\<close> joined by the separator; a negative index counts from the right; the empty
  string when \<open>start\<close> lies behind the last field, \<open>end\<close> before the first, or
  \<open>start > end\<close>.
\<close>

definition QString_section :: "string \<Rightarrow> char \<Rightarrow> int \<Rightarrow> int \<Rightarrow> string" where
  "QString_section s sep start end' =
     (let sections = QString_split sep s;
          sectionsSize = int (length sections);
          start1 = (if start < 0 then start + sectionsSize else start);
          end1 = (if end' < 0 then end' + sectionsSize else end')
      in if start1 \<ge> sectionsSize \<or> end1 < 0 \<or> start1 > end1 then []
         else QString_join sep (drop (nat start1) (take (nat (end1 + 1)) sections)))"

text \<open>\<open>QString::remove(str)\<close>: every occurrence of \<open>str\<close> is removed, left to right.\<close>

function QString_remove :: "string \<Rightarrow> string \<Rightarrow> string" where
  "QString_remove [] str = []"
| "QString_remove (c # cs) str =
     (if str \<noteq> [] \<and> prefix str (c # cs)
      then QString_remove (drop (length str) (c # cs)) str
      else c # QString_remove cs str)"
  by pat_completeness auto
termination
  by (relation "measure (\<lambda>(s, str). length s)") auto

definition endsWith :: "string \<Rightarrow> string \<Rightarrow> bool" where
  "endsWith s t = suffix t s"

subsection \<open>QJsonValue\<close>

text \<open>
  A parsed JSON value. A number is represented by its whole value when it has one
  (\<open>JNumber None\<close> is a number with a fractional part); an object by its members.
\<close>

datatype QJsonValue =
    JUndefined
  | JNull
  | JBool bool
  | JNumber "int option"
  | JString string
  | JArray "QJsonValue list"
  | JObject "(string \<times> QJsonValue) list"

text \<open>The accessors return the default of the target type when the value has another type.\<close>

definition toObject :: "QJsonValue \<Rightarrow> (string \<times> QJsonValue) list" where
  "toObject v = (case v of JObject kvs \<Rightarrow> kvs | _ \<Rightarrow> [])"

definition toArray :: "QJsonValue \<Rightarrow> QJsonValue list" where
  "toArray v = (case v of JArray vs \<Rightarrow> vs | _ \<Rightarrow> [])"

definition toString :: "QJsonValue \<Rightarrow> string" where
  "toString v = (case v of JString s \<Rightarrow> s | _ \<Rightarrow> [])"

definition toInt :: "QJsonValue \<Rightarrow> int" where
  "toInt v =
     (case v of
        JNumber (Some n) \<Rightarrow> if - 2147483648 \<le> n \<and> n \<le> 2147483647 then n else 0
      | _ \<Rightarrow> 0)"

definition value' :: "(string \<times> QJsonValue) list \<Rightarrow> string \<Rightarrow> QJsonValue" where
  "value' obj key = (case map_of obj key of Some v \<Rightarrow> v | None \<Rightarrow> JUndefined)"

subsection \<open>QDateTime\<close>

text \<open>
  A date-time is invalid, or has a date (its Julian day number) and a time of day in
  milliseconds. \<open>daysTo\<close> is the difference of the two dates, 0 when one is invalid.
\<close>

datatype QDateTime = InvalidDateTime | DateTime int int

definition isValidDateTime :: "QDateTime \<Rightarrow> bool" where
  "isValidDateTime t = (t \<noteq> InvalidDateTime)"

fun daysTo :: "QDateTime \<Rightarrow> QDateTime \<Rightarrow> int" where
  "daysTo (DateTime jd1 _) (DateTime jd2 _) = jd2 - jd1"
| "daysTo _ _ = 0"

text \<open>\<open>msecsTo\<close> is the time that elapses from the first date-time to the second.\<close>

fun msecsTo :: "QDateTime \<Rightarrow> QDateTime \<Rightarrow> int" where
  "msecsTo (DateTime jd1 ms1) (DateTime jd2 ms2) = (jd2 - jd1) * 86400000 + (ms2 - ms1)"
| "msecsTo _ _ = 0"

definition isLeapYear :: "int \<Rightarrow> bool" where
  "isLeapYear y = (y mod 4 = 0 \<and> (y mod 100 \<noteq> 0 \<or> y mod 400 = 0))"

definition daysInMonth :: "int \<Rightarrow> int \<Rightarrow> int" where
  "daysInMonth y m =
     (if m = 2 then (if isLeapYear y then 29 else 28)
      else if m = 4 \<or> m = 6 \<or> m = 9 \<or> m = 11 then 30 else 31)"

definition julianDayFromDate :: "int \<Rightarrow> int \<Rightarrow> int \<Rightarrow> int" where
  "julianDayFromDate year month day =
     (let a = (14 - month) div 12;
          y = year + 4800 - a;
          m = month + 12 * a - 3
      in day + (153 * m + 2) div 5 + 365 * y + y div 4 - y div 100 + y div 400 - 32045)"

fun digits :: "string \<Rightarrow> int option" where
  "digits [] = Some 0"
| "digits cs =
     (let c = last cs in
      if CHR ''0'' \<le> c \<and> c \<le> CHR ''9''
      then (case digits (butlast cs) of
              Some n \<Rightarrow> Some (10 * n + (of_char c - 48))
            | None \<Rightarrow> None)
      else None)"

text \<open>\<open>QDateTime::fromString(s, "yyyyMMdd")\<close>: eight digits naming a date of the calendar.\<close>

definition fromString_yyyyMMdd :: "string \<Rightarrow> QDateTime" where
  "fromString_yyyyMMdd s =
     (if length s = 8 then
        (case (digits (take 4 s), digits (take 2 (drop 4 s)), digits (drop 6 s)) of
           (Some y, Some m, Some d) \<Rightarrow>
             if y \<noteq> 0 \<and> 1 \<le> m \<and> m \<le> 12 \<and> 1 \<le> d \<and> d \<le> daysInMonth y m
             then DateTime (julianDayFromDate y m d) 0
             else InvalidDateTime
         | _ \<Rightarrow> InvalidDateTime)
      else InvalidDateTime)"

section \<open>The objects of the data manager\<close>

subsection \<open>QUrl\<close>

text \<open>
  A \<open>QUrl\<close> is represented by its text; the default-constructed \<open>QUrl()\<close> is the
  empty text. \<open>isValid\<close> holds for a non-empty text that Qt's URL parser accepts; the
  parser is the parameter \<open>parses\<close>.
\<close>

definition QUrl_isValid :: "(string \<Rightarrow> bool) \<Rightarrow> string \<Rightarrow> bool" where
  "QUrl_isValid parses u = (u \<noteq> [] \<and> parses u)"

subsection \<open>Downloadable\<close>

text \<open>
  Modelled from the spec: class \<open>Downloadable\<close> (Downloadable.h, Downloadable.cpp) is
  not among the sources. A Resource has its identity (\<open>name\<close>, \<open>category\<close>), the remote
  descriptor (\<open>remoteURL\<close>, \<open>remoteModifiedTime\<close>, \<open>remoteSizeBytes\<close>) and the
  \<open>localPath\<close>; the fields carry the names of the getters that DataManager.cpp calls.
  The remote size is \<open>None\<close> until \<open>setRemoteFileSize\<close> is called.
\<close>

record Downloadable =
  objectName :: string
  section' :: string
  url :: string
  fileName :: string
  remoteFileDate :: QDateTime
  remoteFileSize :: "int option"

type_synonym ptr = nat

text \<open>
  The bytes of the downloaded file maps.json are represented by what
  \<open>QJsonDocument::fromJson\<close> makes of them: a parse error, or the parsed value.
\<close>

datatype FileContent = Unparsable | Json QJsonValue

text \<open>The signals the data manager emits to its observers.\<close>

datatype signal = Error string

text \<open>
  The state: the \<open>Downloadable\<close> objects ever created, in the order of their
  creation; the address of an object is its position, and \<open>None\<close> stands at the address
  of a deleted object (its address is never handed out again, so a \<open>QPointer\<close> to it
  stays null); the member lists of the four groups; the objects queued by \<open>deleteLater\<close>; the manifest resource
  \<open>_maps_json\<close> (its local file, whether it is downloading, how many downloads were
  started); the regular files that exist, by absolute path, in the order in which a
  directory iterator finds them; the application data directory; the interval of the
  running auto-update timer in milliseconds (\<open>None\<close>: never started); the setting
  DataManager/MapListTimeStamp (invalid when no time is recorded); the setting
  acceptedTerms; whether \<open>deferredInitialization\<close> has connected the timer and the
  settings to their slots; and the signals emitted so far.
\<close>

record DataManager =
  objects :: "Downloadable option list"
  geoMaps :: "ptr list"
  aviationMaps :: "ptr list"
  baseMaps :: "ptr list"
  databases :: "ptr list"
  deleteLaterQueue :: "ptr list"
  maps_json_file :: "FileContent option"
  maps_json_downloading :: bool
  maps_json_downloadsStarted :: nat
  fileSystem :: "string list"
  appDataLocation :: string
  autoUpdateTimer :: "int option"
  mapListTimeStamp :: QDateTime
  acceptedTerms :: bool
  connected :: bool
  emitted :: "signal list"

definition hours :: "int \<Rightarrow> int" where
  "hours n = n * 3600000"

text \<open>The object at an address, if it is alive.\<close>

definition lookup :: "DataManager \<Rightarrow> ptr \<Rightarrow> Downloadable option" where
  "lookup dm p = (if p < length (objects dm) then objects dm ! p else None)"

definition obj :: "DataManager \<Rightarrow> ptr \<Rightarrow> Downloadable" where
  "obj dm p = the (lookup dm p)"

text \<open>
  Modelled from the spec: \<open>Downloadable::hasFile\<close> is not among the sources;
  \<open>hasLocalFile\<close> is the existence of the local file.
\<close>

definition hasFile :: "DataManager \<Rightarrow> Downloadable \<Rightarrow> bool" where
  "hasFile dm d = (fileName d \<in> set (fileSystem dm))"

text \<open>
  Modelled from the spec: the setters of \<open>Downloadable\<close> are not among the sources;
  \<open>setRemoteDescriptor\<close> updates the remote metadata without touching the local file.
  Each setter changes its one field of the object the pointer names.
\<close>

definition modify :: "ptr \<Rightarrow> (Downloadable \<Rightarrow> Downloadable) \<Rightarrow> DataManager \<Rightarrow> DataManager" where
  "modify p f dm = dm\<lparr>objects := (objects dm)[p := map_option f (lookup dm p)]\<rparr>"

definition setRemoteFileDate :: "ptr \<Rightarrow> QDateTime \<Rightarrow> DataManager \<Rightarrow> DataManager" where
  "setRemoteFileDate p t = modify p (\<lambda>d. d\<lparr>remoteFileDate := t\<rparr>)"

definition setRemoteFileSize :: "ptr \<Rightarrow> int \<Rightarrow> DataManager \<Rightarrow> DataManager" where
  "setRemoteFileSize p n = modify p (\<lambda>d. d\<lparr>remoteFileSize := Some n\<rparr>)"

definition setObjectName :: "ptr \<Rightarrow> string \<Rightarrow> DataManager \<Rightarrow> DataManager" where
  "setObjectName p n = modify p (\<lambda>d. d\<lparr>objectName := n\<rparr>)"

definition setSection :: "ptr \<Rightarrow> string \<Rightarrow> DataManager \<Rightarrow> DataManager" where
  "setSection p n = modify p (\<lambda>d. d\<lparr>section' := n\<rparr>)"

text \<open>
  \<open>new Downloadable(url, localFileName, this)\<close>: a fresh object with the given URL and
  local path; the other fields have the defaults of their types.
\<close>

definition newDownloadable :: "string \<Rightarrow> string \<Rightarrow> DataManager \<Rightarrow> ptr \<times> DataManager" where
  "newDownloadable u localFileName dm =
     (length (objects dm),
      dm\<lparr>objects := objects dm @
            [Some \<lparr>objectName = [], section' = [], url = u, fileName = localFileName,
                   remoteFileDate = InvalidDateTime, remoteFileSize = None\<rparr>]\<rparr>)"

text \<open>\<open>delete ptr\<close>: the object is gone; every \<open>QPointer\<close> to it is null from now on.\<close>

definition delete :: "ptr \<Rightarrow> DataManager \<Rightarrow> DataManager" where
  "delete p dm = dm\<lparr>objects := (objects dm)[p := None]\<rparr>"

text \<open>\<open>ptr->deleteLater()\<close>: the object is deleted when control returns to the event loop.\<close>

definition deleteLater :: "ptr \<Rightarrow> DataManager \<Rightarrow> DataManager" where
  "deleteLater p dm = dm\<lparr>deleteLaterQueue := deleteLaterQueue dm @ [p]\<rparr>"

subsection \<open>DownloadableGroup\<close>

text \<open>
  Modelled from the spec: DownloadableGroup.cpp and DownloadableGroupWatcher.cpp are not
  among the sources. \<open>add(resource)\<close> inserts and is a no-op if the same object is
  already present; \<open>remove(resource)\<close> removes the reference and does not destroy the
  Resource; \<open>list()\<close> returns a snapshot without the entries whose object is gone, in
  ascending order; the order is the one DownloadableGroupWatcher.h documents for the
  property \<open>downloadables\<close>: first by \<open>section()\<close>, then by file name.
\<close>

definition addToGroup :: "ptr \<Rightarrow> ptr list \<Rightarrow> ptr list" where
  "addToGroup p g = (if p \<in> set g then g else g @ [p])"

definition removeFromGroup :: "ptr \<Rightarrow> ptr list \<Rightarrow> ptr list" where
  "removeFromGroup p g = removeAll p g"

definition downloadables :: "DataManager \<Rightarrow> ptr list \<Rightarrow> ptr list" where
  "downloadables dm g =
     sort_key (\<lambda>p. (section' (obj dm p), fileName (obj dm p)))
       (filter (\<lambda>p. lookup dm p \<noteq> None) g)"

section \<open>DataManager.cpp\<close>

subsection \<open>The manifest resource and the scheduler\<close>

text \<open>
  Modelled from the spec: \<open>Downloadable::startFileDownload\<close> is not among the sources;
  \<open>startTransfer()\<close> begins a fetch and is a no-op while a transfer is active.
\<close>

definition startFileDownload :: "DataManager \<Rightarrow> DataManager" where
  "startFileDownload dm =
     (if maps_json_downloading dm then dm
      else dm\<lparr>maps_json_downloading := True,
              maps_json_downloadsStarted := Suc (maps_json_downloadsStarted dm)\<rparr>)"

definition updateGeoMapList :: "DataManager \<Rightarrow> DataManager" where
  "updateGeoMapList dm = startFileDownload dm"

definition errorReceiver :: "string \<Rightarrow> string \<Rightarrow> DataManager \<Rightarrow> DataManager" where
  "errorReceiver unused message dm = dm\<lparr>emitted := emitted dm @ [Error message]\<rparr>"

text \<open>The argument \<open>now\<close> is what \<open>QDateTime::currentDateTimeUtc()\<close> returns.\<close>

definition setTimeOfLastUpdateToNow :: "QDateTime \<Rightarrow> DataManager \<Rightarrow> DataManager" where
  "setTimeOfLastUpdateToNow now dm =
     dm\<lparr>mapListTimeStamp := now, autoUpdateTimer := Some (hours 24)\<rparr>"

text \<open>
  The argument \<open>now\<close> is what \<open>QDateTime::currentDateTime()\<close> returns. The source
  applies \<open>qAbs\<close> to the result of the comparison \<open>daysTo(...) > 6\<close>, a \<open>bool\<close>.
\<close>

definition autoUpdateGeoMapList :: "QDateTime \<Rightarrow> DataManager \<Rightarrow> DataManager" where
  "autoUpdateGeoMapList now dm =
     (let lastUpdate = mapListTimeStamp dm in
      if \<not> isValidDateTime lastUpdate
         \<or> \<bar>(if daysTo lastUpdate now > 6 then 1 else 0 :: int)\<bar> \<noteq> 0
      then updateGeoMapList (dm\<lparr>autoUpdateTimer := Some (hours 1)\<rparr>)
      else dm\<lparr>autoUpdateTimer := Some (hours 24)\<rparr>)"

subsection \<open>localFileOfGeoMapChanged\<close>

fun removeUnsupported :: "(string \<Rightarrow> bool) \<Rightarrow> ptr list \<Rightarrow> DataManager \<Rightarrow> DataManager" where
  "removeUnsupported parses [] dm = dm"
| "removeUnsupported parses (geoMapPtr # geoMaps') dm =
     (if QUrl_isValid parses (url (obj dm geoMapPtr)) then removeUnsupported parses geoMaps' dm
      else if hasFile dm (obj dm geoMapPtr) then removeUnsupported parses geoMaps' dm
      else removeUnsupported parses geoMaps'
             (deleteLater geoMapPtr (dm\<lparr>geoMaps := removeFromGroup geoMapPtr (geoMaps dm)\<rparr>)))"

definition localFileOfGeoMapChanged :: "(string \<Rightarrow> bool) \<Rightarrow> DataManager \<Rightarrow> DataManager" where
  "localFileOfGeoMapChanged parses dm =
     removeUnsupported parses (downloadables dm (geoMaps dm)) dm"

subsection \<open>unattachedFiles\<close>

text \<open>
  \<open>QDirIterator(dir, QDir::Files, QDirIterator::Subdirectories)\<close> yields the files
  below \<open>dir\<close>, in all subdirectories, by their path \<open>dir/...\<close>. The filter
  \<open>QDir::Files\<close> without \<open>QDir::Hidden\<close> leaves out hidden files and does not descend
  into hidden directories: a path is hidden when the name of the file or of a directory
  on the way to it begins with a dot.
\<close>

definition isHidden :: "string \<Rightarrow> bool" where
  "isHidden relativePath =
     list_ex (\<lambda>name. take 1 name = ''.'') (QString_split CHR ''/'' relativePath)"

definition QDirIterator_Files :: "string \<Rightarrow> string list \<Rightarrow> string list" where
  "QDirIterator_Files dir files =
     filter (\<lambda>filePath. prefix (dir @ ''/'') filePath
               \<and> \<not> isHidden (drop (length dir + 1) filePath)) files"

definition unattachedFiles :: "DataManager \<Rightarrow> string list" where
  "unattachedFiles dm =
     filter (\<lambda>filePath.
         \<not> list_ex (\<lambda>geoMapPtr. fileName (obj dm geoMapPtr) = filePath)
             (downloadables dm (geoMaps dm)))
       (QDirIterator_Files (appDataLocation dm @ ''/aviation_maps'') (fileSystem dm))"

subsection \<open>readGeoMapListFromJSONFile\<close>

definition findByObjectName :: "DataManager \<Rightarrow> ptr list \<Rightarrow> string \<Rightarrow> ptr option" where
  "findByObjectName dm oldMaps name =
     List.find (\<lambda>geoMapPtr. objectName (obj dm geoMapPtr) = name) oldMaps"

text \<open>The body of the loop over the entries of "maps": one entry of the manifest.\<close>

definition handleMap ::
  "string \<Rightarrow> QJsonValue \<Rightarrow> ptr list \<Rightarrow> DataManager \<Rightarrow> ptr list \<times> DataManager" where
  "handleMap baseURL map' oldMaps dm =
     (let obj' = toObject map';
          mapFileName = toString (value' obj' ''path'');
          mapName = QString_section mapFileName CHR ''.'' (- 2) (- 2);
          mapUrlName = baseURL @ ''/'' @ toString (value' obj' ''path'');
          fileModificationDateTime = fromString_yyyyMMdd (toString (value' obj' ''time''));
          fileSize = toInt (value' obj' ''size'')
      in case findByObjectName dm oldMaps (QString_section mapName CHR ''/'' (- 1) (- 1)) of
           Some mapPtr \<Rightarrow>
             (removeAll mapPtr oldMaps,
              setRemoteFileSize mapPtr fileSize
                (setRemoteFileDate mapPtr fileModificationDateTime dm))
         | None \<Rightarrow>
             (let localFileName = appDataLocation dm @ ''/aviation_maps/'' @ mapFileName;
                  (downloadable, dm1) = newDownloadable mapUrlName localFileName dm;
                  dm2 = setObjectName downloadable (QString_section mapName CHR ''/'' (- 1) (- 1)) dm1;
                  dm3 = setSection downloadable (QString_section mapName CHR ''/'' (- 2) (- 2)) dm2;
                  dm4 = setRemoteFileDate downloadable fileModificationDateTime dm3;
                  dm5 = setRemoteFileSize downloadable fileSize dm4;
                  dm6 = dm5\<lparr>geoMaps := addToGroup downloadable (geoMaps dm5)\<rparr>;
                  dm7 = (if endsWith localFileName ''geojson''
                         then dm6\<lparr>aviationMaps := addToGroup downloadable (aviationMaps dm6)\<rparr>
                         else dm6);
                  dm8 = (if endsWith localFileName ''mbtiles''
                         then dm7\<lparr>baseMaps := addToGroup downloadable (baseMaps dm7)\<rparr>
                         else dm7);
                  dm9 = (if endsWith localFileName ''txt''
                         then dm8\<lparr>databases := addToGroup downloadable (databases dm8)\<rparr>
                         else dm8)
              in (oldMaps, dm9)))"

fun handleMaps ::
  "string \<Rightarrow> QJsonValue list \<Rightarrow> ptr list \<Rightarrow> DataManager \<Rightarrow> ptr list \<times> DataManager" where
  "handleMaps baseURL [] oldMaps dm = (oldMaps, dm)"
| "handleMaps baseURL (map' # maps) oldMaps dm =
     (case handleMap baseURL map' oldMaps dm of
        (oldMaps1, dm1) \<Rightarrow> handleMaps baseURL maps oldMaps1 dm1)"

text \<open>The loop over the leftover objects of the old list.\<close>

fun deleteLeftover :: "ptr list \<Rightarrow> DataManager \<Rightarrow> DataManager" where
  "deleteLeftover [] dm = dm"
| "deleteLeftover (geoMapPtr # oldMaps) dm =
     (if hasFile dm (obj dm geoMapPtr) then deleteLeftover oldMaps dm
      else deleteLeftover oldMaps (delete geoMapPtr dm))"

text \<open>The loop over the unattached files.\<close>

fun addUnattached :: "string list \<Rightarrow> DataManager \<Rightarrow> DataManager" where
  "addUnattached [] dm = dm"
| "addUnattached (path # paths) dm =
     (let objectName' =
            QString_section
              (QString_remove path (appDataLocation dm @ ''/aviation_maps/'')) CHR ''.'' 0 0;
          (downloadable, dm1) = newDownloadable [] path dm;
          dm2 = setSection downloadable ''Unsupported Maps'' dm1;
          dm3 = setObjectName downloadable objectName' dm2;
          dm4 = dm3\<lparr>geoMaps := addToGroup downloadable (geoMaps dm3)\<rparr>
      in addUnattached paths dm4)"

definition readGeoMapListFromJSONFile :: "DataManager \<Rightarrow> DataManager" where
  "readGeoMapListFromJSONFile dm =
     (case maps_json_file dm of
        None \<Rightarrow> dm
      | Some fileContent \<Rightarrow>
          (let oldMaps = downloadables dm (geoMaps dm) in
           case fileContent of
             Unparsable \<Rightarrow> dm
           | Json doc \<Rightarrow>
               (let top = toObject doc;
                    baseURL = toString (value' top ''url'');
                    (oldMaps1, dm1) = handleMaps baseURL (toArray (value' top ''maps'')) oldMaps dm;
                    dm2 = deleteLeftover oldMaps1 dm1
                in addUnattached (unattachedFiles dm2) dm2)))"

subsection \<open>deferredInitialization\<close>

text \<open>
  Modelled from the spec: class \<open>Settings\<close> is not among the sources; it exposes the
  boolean "network use accepted" gate, here the field \<open>acceptedTerms\<close>. The two
  \<open>connect\<close> calls are recorded in the field \<open>connected\<close>.
\<close>

definition deferredInitialization :: "QDateTime \<Rightarrow> DataManager \<Rightarrow> DataManager" where
  "deferredInitialization now dm =
     (let dm0 = dm\<lparr>connected := True\<rparr>;
          dm1 = (if acceptedTerms dm0 then autoUpdateGeoMapList now dm0 else dm0)
      in if maps_json_file dm1 \<noteq> None then readGeoMapListFromJSONFile dm1
         else if acceptedTerms dm1 then startFileDownload dm1
         else dm1)"

subsection \<open>The slots, as the constructor and deferredInitialization connect them\<close>

text \<open>
  An event is a signal that reaches one of the slots above. Once
  \<open>deferredInitialization\<close> has connected them, the timer's \<open>timeout\<close> runs
  \<open>autoUpdateGeoMapList\<close> (a timer that was never started does not fire) and
  \<open>acceptedTermsChanged\<close> of the settings runs \<open>updateGeoMapList\<close>; before that
  these two signals reach no slot. From the construction on, the manifest
  resource's \<open>fileContentChanged\<close> runs \<open>readGeoMapListFromJSONFile\<close> and then
  \<open>setTimeOfLastUpdateToNow\<close>; its \<open>error\<close> runs \<open>errorReceiver\<close>; the umbrella
  group's \<open>filesChanged\<close> runs \<open>localFileOfGeoMapChanged\<close>.
  Modelled from the spec: the emitting classes are not among the sources. A transfer
  that ends, in success or failure, is no longer active; on success the local file holds
  the new content; a change of the setting stores the new value of the gate.
\<close>

datatype event =
    Timeout QDateTime
  | AcceptedTermsChanged bool
  | FileContentChanged FileContent QDateTime
  | DownloadError string string
  | FilesChanged

fun slot :: "(string \<Rightarrow> bool) \<Rightarrow> event \<Rightarrow> DataManager \<Rightarrow> DataManager" where
  "slot parses (Timeout now) dm =
     (if connected dm \<and> autoUpdateTimer dm \<noteq> None then autoUpdateGeoMapList now dm else dm)"
| "slot parses (AcceptedTermsChanged b) dm =
     (if connected dm then updateGeoMapList (dm\<lparr>acceptedTerms := b\<rparr>)
      else dm\<lparr>acceptedTerms := b\<rparr>)"
| "slot parses (FileContentChanged fileContent now) dm =
     setTimeOfLastUpdateToNow now
       (readGeoMapListFromJSONFile
          (dm\<lparr>maps_json_file := Some fileContent, maps_json_downloading := False\<rparr>))"
| "slot parses (DownloadError objectName' message) dm =
     errorReceiver objectName' message (dm\<lparr>maps_json_downloading := False\<rparr>)"
| "slot parses FilesChanged dm = localFileOfGeoMapChanged parses dm"

fun run :: "(string \<Rightarrow> bool) \<Rightarrow> event list \<Rightarrow> DataManager \<Rightarrow> DataManager" where
  "run parses [] dm = dm"
| "run parses (e # es) dm = run parses es (slot parses e dm)"

section \<open>DownloadableGroupWatcher.h\<close>

text \<open>
  Modelled from the spec: the header declares the cached values, the notifier signals
  and the slots \<open>checkAndEmitSignals\<close> and \<open>cleanUp\<close>; their bodies
  (DownloadableGroupWatcher.cpp) and class \<open>Downloadable\<close> are not among the sources.
  A Resource has a transfer state, one of \<open>Idle\<close>, \<open>Downloading\<close>, \<open>Failed(reason)\<close>,
  a local path and the derived values \<open>hasLocalFile\<close>, \<open>isUpdatable\<close> and
  \<open>updateSizeBytes\<close>; this is what the aggregator reads of a member.
\<close>

datatype TransferState = Idle | Downloading | Failed string

record Resource =
  transferState :: TransferState
  hasLocalFile :: bool
  isUpdatable :: bool
  localPath :: string
  updateSizeBytes :: nat

text \<open>
  The group: the list \<open>_downloadables\<close> of guarded pointers to the members (\<open>None\<close>
  where the Resource is gone), and the five cached values with the initial values
  that the header gives them. (The header has a sixth cached value, the list of the
  members with a file; the recomputation below has the five values listed there.)
\<close>

record DownloadableGroupWatcher =
  members' :: "Resource option list"
  cachedDownloading :: bool
  cachedFiles :: "string list"
  cachedHasFile :: bool
  cachedUpdatable :: bool
  cachedUpdateSize :: string

text \<open>The notifier signals of the five properties, with the value they carry.\<close>

datatype notification =
    downloadingChanged bool
  | hasFileChanged bool
  | updatableChanged bool
  | filesChanged "string list"
  | updateSizeChanged string

text \<open>\<open>cleanUp\<close>: remove all instances of \<open>nullptr\<close> from \<open>_downloadables\<close>.\<close>

definition cleanUp :: "DownloadableGroupWatcher \<Rightarrow> DownloadableGroupWatcher" where
  "cleanUp w = w\<lparr>members' := filter (\<lambda>r. r \<noteq> None) (members' w)\<rparr>"

definition resources :: "DownloadableGroupWatcher \<Rightarrow> Resource list" where
  "resources w = map the (filter (\<lambda>r. r \<noteq> None) (members' w))"

text \<open>
  Modelled from the spec: the five derived values. \<open>downloading\<close> is the logical OR of
  each member's transfer state being \<open>Downloading\<close>; \<open>hasFile\<close> the OR of each member's
  \<open>hasLocalFile\<close>; \<open>updatable\<close> the OR of each member's \<open>isUpdatable\<close>; \<open>files\<close> the
  sorted list of \<open>localPath\<close> for members with \<open>hasLocalFile\<close>; \<open>updateSize\<close> the
  human-readable formatting of the sum of \<open>updateSizeBytes\<close> over updatable members,
  the empty string if the sum is zero. The formatting of a number of bytes is the
  parameter \<open>formattedDataSize\<close>.
\<close>

definition group_downloading :: "DownloadableGroupWatcher \<Rightarrow> bool" where
  "group_downloading w = list_ex (\<lambda>r. transferState r = Downloading) (resources w)"

definition group_hasFile :: "DownloadableGroupWatcher \<Rightarrow> bool" where
  "group_hasFile w = list_ex hasLocalFile (resources w)"

definition group_updatable :: "DownloadableGroupWatcher \<Rightarrow> bool" where
  "group_updatable w = list_ex isUpdatable (resources w)"

definition group_files :: "DownloadableGroupWatcher \<Rightarrow> string list" where
  "group_files w = sort (map localPath (filter hasLocalFile (resources w)))"

definition group_updateSize :: "(nat \<Rightarrow> string) \<Rightarrow> DownloadableGroupWatcher \<Rightarrow> string" where
  "group_updateSize formattedDataSize w =
     (let sum = sum_list (map updateSizeBytes (filter isUpdatable (resources w)))
      in if sum = 0 then [] else formattedDataSize sum)"

text \<open>
  Modelled from the spec: \<open>checkAndEmitSignals\<close> prunes the entries whose Resource is
  gone, recomputes the five values, and for each of them compares against the previous
  cached value, emits a change notification only on inequality, then overwrites the
  cache. The result is the list of the notifications emitted and the new state.
\<close>

definition checkAndEmitSignals ::
  "(nat \<Rightarrow> string) \<Rightarrow> DownloadableGroupWatcher \<Rightarrow> notification list \<times> DownloadableGroupWatcher" where
  "checkAndEmitSignals formattedDataSize w0 =
     (let w = cleanUp w0;
          newDownloading = group_downloading w;
          newHasFile = group_hasFile w;
          newUpdatable = group_updatable w;
          newFiles = group_files w;
          newUpdateSize = group_updateSize formattedDataSize w
      in ((if newDownloading \<noteq> cachedDownloading w then [downloadingChanged newDownloading] else [])
          @ (if newHasFile \<noteq> cachedHasFile w then [hasFileChanged newHasFile] else [])
          @ (if newUpdatable \<noteq> cachedUpdatable w then [updatableChanged newUpdatable] else [])
          @ (if newFiles \<noteq> cachedFiles w then [filesChanged newFiles] else [])
          @ (if newUpdateSize \<noteq> cachedUpdateSize w then [updateSizeChanged newUpdateSize] else []),
          w\<lparr>cachedDownloading := newDownloading, cachedHasFile := newHasFile,
            cachedUpdatable := newUpdatable, cachedFiles := newFiles,
            cachedUpdateSize := newUpdateSize\<rparr>))"

text \<open>
  Modelled from the spec: the recomputation is triggered on every change of the
  membership and on every state-change notification of a member. A change is the
  addition of a Resource that is not yet a member (adding a member again is a no-op),
  the removal of the member at a position, a new state of the member at a position, or
  the destruction of the Resource at a position.
\<close>

datatype change = Add Resource | Remove nat | StateChange nat Resource | Destroyed nat

fun apply_change :: "change \<Rightarrow> DownloadableGroupWatcher \<Rightarrow> DownloadableGroupWatcher" where
  "apply_change (Add r) w = w\<lparr>members' := members' w @ [Some r]\<rparr>"
| "apply_change (Remove i) w = w\<lparr>members' := take i (members' w) @ drop (Suc i) (members' w)\<rparr>"
| "apply_change (StateChange i r) w =
     (if i < length (members' w) \<and> members' w ! i \<noteq> None
      then w\<lparr>members' := (members' w)[i := Some r]\<rparr> else w)"
| "apply_change (Destroyed i) w = w\<lparr>members' := (members' w)[i := None]\<rparr>"

text \<open>The run of the aggregator over a list of changes: for every change, the state in
  which the recomputation starts and the notifications that it emits.\<close>

fun history ::
  "(nat \<Rightarrow> string) \<Rightarrow> change list \<Rightarrow> DownloadableGroupWatcher
     \<Rightarrow> (DownloadableGroupWatcher \<times> notification list) list" where
  "history formattedDataSize [] w = []"
| "history formattedDataSize (c # cs) w =
     (apply_change c w, fst (checkAndEmitSignals formattedDataSize (apply_change c w)))
       # history formattedDataSize cs (snd (checkAndEmitSignals formattedDataSize (apply_change c w)))"

section \<open>Auxiliary notions and example inputs\<close>

text \<open>What the reconciliation never touches: everything but the objects and the groups.\<close>

definition frame :: "DataManager \<Rightarrow> DataManager" where
  "frame dm = dm\<lparr>objects := [], geoMaps := [], aviationMaps := [],
     baseMaps := [], databases := []\<rparr>"

text \<open>A data manager right after construction, with nothing downloaded and no setting stored.\<close>

definition initial :: DataManager where
  "initial = \<lparr>objects = [], geoMaps = [], aviationMaps = [],
     baseMaps = [], databases = [], deleteLaterQueue = [], maps_json_file = None,
     maps_json_downloading = False, maps_json_downloadsStarted = 0, fileSystem = [],
     appDataLocation = ''/data'', autoUpdateTimer = None, mapListTimeStamp = InvalidDateTime,
     acceptedTerms = False, connected = False, emitted = []\<rparr>"

definition entry :: "string \<Rightarrow> string \<Rightarrow> int \<Rightarrow> QJsonValue" where
  "entry path' time size' =
     JObject [(''path'', JString path'), (''size'', JNumber (Some size')), (''time'', JString time)]"

definition manifest :: "QJsonValue list \<Rightarrow> FileContent" where
  "manifest maps = Json (JObject [(''url'', JString ''https://maps.example''), (''maps'', JArray maps)])"

text \<open>A manager whose user accepted the terms, with a manifest on disk, refreshed on day 100.\<close>

definition installed :: DataManager where
  "installed = initial\<lparr>acceptedTerms := True, maps_json_file := Some (manifest []),
     mapListTimeStamp := DateTime 100 0\<rparr>"

text \<open>What one entry of the manifest says: its path, the object name and the section
  cut from the path, and the object that the reconciliation creates for it.\<close>

definition mapFileName :: "QJsonValue \<Rightarrow> string" where
  "mapFileName m = toString (value' (toObject m) ''path'')"

definition mapObjectName :: "QJsonValue \<Rightarrow> string" where
  "mapObjectName m =
     QString_section (QString_section (mapFileName m) CHR ''.'' (- 2) (- 2)) CHR ''/'' (- 1) (- 1)"

definition mapDate :: "QJsonValue \<Rightarrow> QDateTime" where
  "mapDate m = fromString_yyyyMMdd (toString (value' (toObject m) ''time''))"

definition mapSize :: "QJsonValue \<Rightarrow> int" where
  "mapSize m = toInt (value' (toObject m) ''size'')"

definition created :: "string \<Rightarrow> string \<Rightarrow> QJsonValue \<Rightarrow> Downloadable" where
  "created baseURL appData m =
     \<lparr>objectName = mapObjectName m,
      section' = QString_section (QString_section (mapFileName m) CHR ''.'' (- 2) (- 2)) CHR ''/'' (- 2) (- 2),
      url = baseURL @ ''/'' @ mapFileName m,
      fileName = appData @ ''/aviation_maps/'' @ mapFileName m,
      remoteFileDate = mapDate m,
      remoteFileSize = Some (mapSize m)\<rparr>"

definition updated :: "QJsonValue \<Rightarrow> Downloadable \<Rightarrow> Downloadable" where
  "updated m d = d\<lparr>remoteFileDate := mapDate m, remoteFileSize := Some (mapSize m)\<rparr>"

text \<open>The object that the reconciliation creates for an unattached file.\<close>

definition unattached :: "string \<Rightarrow> string \<Rightarrow> Downloadable" where
  "unattached appData path =
     \<lparr>objectName = QString_section (QString_remove path (appData @ ''/aviation_maps/'')) CHR ''.'' 0 0,
      section' = ''Unsupported Maps'',
      url = [],
      fileName = path,
      remoteFileDate = InvalidDateTime,
      remoteFileSize = None\<rparr>"

text \<open>The entries and the base URL of a parsed manifest.\<close>

definition manifestMaps :: "QJsonValue \<Rightarrow> QJsonValue list" where
  "manifestMaps doc = toArray (value' (toObject doc) ''maps'')"

definition manifestURL :: "QJsonValue \<Rightarrow> string" where
  "manifestURL doc = toString (value' (toObject doc) ''url'')"

text \<open>The members of the umbrella group, and their names.\<close>

definition members :: "DataManager \<Rightarrow> ptr list" where
  "members dm = downloadables dm (geoMaps dm)"


text \<open>The umbrella group lists every object once, and only objects that were created.\<close>

definition wellFormed :: "DataManager \<Rightarrow> bool" where
  "wellFormed dm = (list_all (\<lambda>p. p < length (objects dm)) (geoMaps dm) \<and> distinct (geoMaps dm))"

text \<open>The fields of an object that say which map it is.\<close>

definition ident :: "Downloadable \<Rightarrow> string \<times> string \<times> string \<times> string" where
  "ident d = (objectName d, section' d, url d, fileName d)"

text \<open>An object stands for an entry of the manifest: it is alive, carries the entry's
  name and the entry's remote date and size.\<close>

definition assigned :: "DataManager \<Rightarrow> ptr \<Rightarrow> QJsonValue \<Rightarrow> bool" where
  "assigned dm p m =
     (case lookup dm p of
        None \<Rightarrow> False
      | Some d \<Rightarrow> objectName d = mapObjectName m \<and> remoteFileDate d = mapDate m
          \<and> remoteFileSize d = Some (mapSize m))"

text \<open>The state after a new object for an entry has been created and added to its groups.\<close>

definition create :: "string \<Rightarrow> QJsonValue \<Rightarrow> DataManager \<Rightarrow> DataManager" where
  "create baseURL m dm =
     dm\<lparr>objects := objects dm @ [Some (created baseURL (appDataLocation dm) m)],
        geoMaps := addToGroup (length (objects dm)) (geoMaps dm),
        aviationMaps :=
          (if endsWith (appDataLocation dm @ ''/aviation_maps/'' @ mapFileName m) ''geojson''
           then addToGroup (length (objects dm)) (aviationMaps dm) else aviationMaps dm),
        baseMaps :=
          (if endsWith (appDataLocation dm @ ''/aviation_maps/'' @ mapFileName m) ''mbtiles''
           then addToGroup (length (objects dm)) (baseMaps dm) else baseMaps dm),
        databases :=
          (if endsWith (appDataLocation dm @ ''/aviation_maps/'' @ mapFileName m) ''txt''
           then addToGroup (length (objects dm)) (databases dm) else databases dm)\<rparr>"


text \<open>Two files in the cache directory that no object refers to; the manifest lists no map.\<close>

definition orphaned :: DataManager where
  "orphaned = initial\<lparr>maps_json_file := Some (manifest []),
     fileSystem := [''/data/aviation_maps/orphan.mbtiles'',
                    ''/data/aviation_maps/africa/lakes.mbtiles'']\<rparr>"

text \<open>The manifest offers the map X, and the file of X is installed.\<close>

definition X_offered :: DataManager where
  "X_offered = initial\<lparr>maps_json_file := Some (manifest [entry ''region/X.geojson'' ''20230101'' 1000]),
     fileSystem := [''/data/aviation_maps/region/X.geojson'']\<rparr>"

definition X_object :: Downloadable where
  "X_object = \<lparr>objectName = ''X'', section' = ''region'',
     url = ''https://maps.example/region/X.geojson'',
     fileName = ''/data/aviation_maps/region/X.geojson'',
     remoteFileDate = DateTime 2459946 0, remoteFileSize = Some 1000\<rparr>"

text \<open>The state in which the loop over the unattached files starts: the entries of the
  manifest have been handled and the leftover objects without a file have been deleted.\<close>

definition afterLeftover :: "QJsonValue \<Rightarrow> DataManager \<Rightarrow> DataManager" where
  "afterLeftover doc dm =
     deleteLeftover (fst (handleMaps (manifestURL doc) (manifestMaps doc) (members dm) dm))
       (snd (handleMaps (manifestURL doc) (manifestMaps doc) (members dm) dm))"

text \<open>The map lakes was created from the entry africa/lakes.geojson and never downloaded.
  Now the manifest lists europe/lakes.geojson instead, and a file of that name lies in
  the cache directory, next to a hidden file.\<close>

definition lakes_moved :: DataManager where
  "lakes_moved = initial
     \<lparr>objects := [Some \<lparr>objectName = ''lakes'', section' = ''africa'',
                          url = ''https://maps.example/africa/lakes.geojson'',
                          fileName = ''/data/aviation_maps/africa/lakes.geojson'',
                          remoteFileDate = DateTime 2459946 0, remoteFileSize = Some 1000\<rparr>],
      geoMaps := [0], aviationMaps := [0],
      maps_json_file := Some (manifest [entry ''europe/lakes.geojson'' ''20230201'' 2000]),
      fileSystem := [''/data/aviation_maps/europe/lakes.geojson'',
                     ''/data/aviation_maps/europe/.lakes.geojson.part'']\<rparr>"

text \<open>An orphan: an object with an invalid URL and without a local file.\<close>

definition orphan :: "(string \<Rightarrow> bool) \<Rightarrow> DataManager \<Rightarrow> ptr \<Rightarrow> bool" where
  "orphan parses dm p =
     (\<not> QUrl_isValid parses (url (obj dm p)) \<and> \<not> hasFile dm (obj dm p))"


text \<open>A notification emitted by a recomputation that started in the state \<open>w\<close> is
  justified when it carries the recomputed value and that value differs from the cached
  one.\<close>

fun justified :: "(nat \<Rightarrow> string) \<Rightarrow> DownloadableGroupWatcher \<Rightarrow> notification \<Rightarrow> bool" where
  "justified f w (downloadingChanged b) =
     (b = group_downloading (cleanUp w) \<and> b \<noteq> cachedDownloading w)"
| "justified f w (hasFileChanged b) = (b = group_hasFile (cleanUp w) \<and> b \<noteq> cachedHasFile w)"
| "justified f w (updatableChanged b) =
     (b = group_updatable (cleanUp w) \<and> b \<noteq> cachedUpdatable w)"
| "justified f w (filesChanged fs) = (fs = group_files (cleanUp w) \<and> fs \<noteq> cachedFiles w)"
| "justified f w (updateSizeChanged s) =
     (s = group_updateSize f (cleanUp w) \<and> s \<noteq> cachedUpdateSize w)"

text \<open>An empty group, and two Resources.\<close>

definition emptyGroup :: DownloadableGroupWatcher where
  "emptyGroup = \<lparr>members' = [], cachedDownloading = False, cachedFiles = [],
     cachedHasFile = False, cachedUpdatable = False, cachedUpdateSize = []\<rparr>"

definition resourceA :: Resource where
  "resourceA = \<lparr>transferState = Downloading, hasLocalFile = False, isUpdatable = False,
     localPath = ''/data/aviation_maps/a.geojson'', updateSizeBytes = 0\<rparr>"

definition resourceB :: Resource where
  "resourceB = \<lparr>transferState = Idle, hasLocalFile = True, isUpdatable = False,
     localPath = ''/data/aviation_maps/b.geojson'', updateSizeBytes = 0\<rparr>"




text \<open>The group of \<open>resourceA\<close> and \<open>resourceB\<close> while both are downloading, as the
  aggregator leaves it.\<close>

definition twoMembers :: DownloadableGroupWatcher where
  "twoMembers = \<lparr>members' = [Some resourceA, Some (resourceB\<lparr>transferState := Downloading\<rparr>)],
     cachedDownloading = True, cachedFiles = [''/data/aviation_maps/b.geojson''],
     cachedHasFile = True, cachedUpdatable = False, cachedUpdateSize = []\<rparr>"

section \<open>What the reconciliation leaves alone\<close>

lemma frame_modify: "frame (modify p f dm) = frame dm"
  by (simp add: frame_def modify_def)

lemma frame_setters:
  "frame (setRemoteFileDate p t dm) = frame dm"
  "frame (setRemoteFileSize p n dm) = frame dm"
  "frame (setObjectName p s dm) = frame dm"
  "frame (setSection p s dm) = frame dm"
  by (simp_all add: setRemoteFileDate_def setRemoteFileSize_def setObjectName_def
      setSection_def frame_modify)

lemma frame_newDownloadable: "frame (snd (newDownloadable u f dm)) = frame dm"
  by (simp add: frame_def newDownloadable_def)

lemma frame_delete: "frame (delete p dm) = frame dm"
  by (simp add: frame_def delete_def)

lemma frame_groups:
  "frame (dm\<lparr>geoMaps := g\<rparr>) = frame dm"
  "frame (dm\<lparr>aviationMaps := g\<rparr>) = frame dm"
  "frame (dm\<lparr>baseMaps := g\<rparr>) = frame dm"
  "frame (dm\<lparr>databases := g\<rparr>) = frame dm"
  by (simp_all add: frame_def)

lemma frame_handleMap: "frame (snd (handleMap baseURL m oldMaps dm)) = frame dm"
  by (simp add: handleMap_def Let_def case_prod_beta frame_setters frame_groups
      frame_newDownloadable split: option.split)

lemma frame_handleMaps: "frame (snd (handleMaps baseURL ms oldMaps dm)) = frame dm"
proof (induction ms arbitrary: oldMaps dm)
  case Nil
  show ?case by simp
next
  case (Cons m ms)
  obtain o1 d1 where h: "handleMap baseURL m oldMaps dm = (o1, d1)"
    by (cases "handleMap baseURL m oldMaps dm")
  have "frame d1 = frame dm"
    using frame_handleMap [of baseURL m oldMaps dm] h by simp
  with Cons.IH [of o1 d1] h show ?case by simp
qed

lemma frame_deleteLeftover: "frame (deleteLeftover ps dm) = frame dm"
  by (induction ps arbitrary: dm) (simp_all add: frame_delete)

lemma frame_addUnattached: "frame (addUnattached paths dm) = frame dm"
proof (induction paths arbitrary: dm)
  case Nil
  show ?case by simp
next
  case (Cons path paths)
  show ?case
    by (simp add: Let_def case_prod_beta Cons.IH frame_groups frame_setters
        frame_newDownloadable)
qed

lemma frame_readGeoMapListFromJSONFile: "frame (readGeoMapListFromJSONFile dm) = frame dm"
proof -
  have "frame (addUnattached (unattachedFiles (deleteLeftover o1 d1)) (deleteLeftover o1 d1)) = frame dm"
    if "handleMaps b ms om dm = (o1, d1)" for b ms om o1 d1
    using that frame_handleMaps [of b ms om dm]
    by (simp add: frame_addUnattached frame_deleteLeftover)
  then show ?thesis
    by (simp add: readGeoMapListFromJSONFile_def Let_def split: option.split FileContent.split prod.split)
qed

lemma frame_fields:
  "autoUpdateTimer (frame dm) = autoUpdateTimer dm"
  "mapListTimeStamp (frame dm) = mapListTimeStamp dm"
  "maps_json_downloading (frame dm) = maps_json_downloading dm"
  "maps_json_downloadsStarted (frame dm) = maps_json_downloadsStarted dm"
  "maps_json_file (frame dm) = maps_json_file dm"
  "acceptedTerms (frame dm) = acceptedTerms dm"
  "emitted (frame dm) = emitted dm"
  "fileSystem (frame dm) = fileSystem dm"
  "appDataLocation (frame dm) = appDataLocation dm"
  "deleteLaterQueue (frame dm) = deleteLaterQueue dm"
  "connected (frame dm) = connected dm"
  by (simp_all add: frame_def)

lemma readGeoMapListFromJSONFile_fields:
  "autoUpdateTimer (readGeoMapListFromJSONFile dm) = autoUpdateTimer dm"
  "mapListTimeStamp (readGeoMapListFromJSONFile dm) = mapListTimeStamp dm"
  "maps_json_downloading (readGeoMapListFromJSONFile dm) = maps_json_downloading dm"
  "maps_json_downloadsStarted (readGeoMapListFromJSONFile dm) = maps_json_downloadsStarted dm"
  "maps_json_file (readGeoMapListFromJSONFile dm) = maps_json_file dm"
  "acceptedTerms (readGeoMapListFromJSONFile dm) = acceptedTerms dm"
  "emitted (readGeoMapListFromJSONFile dm) = emitted dm"
  "fileSystem (readGeoMapListFromJSONFile dm) = fileSystem dm"
  "appDataLocation (readGeoMapListFromJSONFile dm) = appDataLocation dm"
  "deleteLaterQueue (readGeoMapListFromJSONFile dm) = deleteLaterQueue dm"
  "connected (readGeoMapListFromJSONFile dm) = connected dm"
  using frame_readGeoMapListFromJSONFile [of dm] frame_fields
  by metis+

lemma removeUnsupported_timer:
  "autoUpdateTimer (removeUnsupported parses ps dm) = autoUpdateTimer dm"
  by (induction ps arbitrary: dm) (simp_all add: deleteLater_def)

lemma autoUpdateGeoMapList_timer: "\<exists>t. autoUpdateTimer (autoUpdateGeoMapList now dm) = Some t"
  by (simp add: autoUpdateGeoMapList_def Let_def updateGeoMapList_def startFileDownload_def)

lemma slot_timer:
  assumes "\<exists>t. autoUpdateTimer dm = Some t"
  shows "\<exists>t. autoUpdateTimer (slot parses e dm) = Some t"
proof (cases e)
  case (Timeout now)
  then show ?thesis using assms autoUpdateGeoMapList_timer [of now dm] by simp
next
  case (AcceptedTermsChanged b)
  then show ?thesis using assms by (simp add: updateGeoMapList_def startFileDownload_def)
next
  case (FileContentChanged c now)
  then show ?thesis by (simp add: setTimeOfLastUpdateToNow_def)
next
  case (DownloadError n m)
  then show ?thesis using assms by (simp add: errorReceiver_def)
next
  case FilesChanged
  then show ?thesis
    using assms by (simp add: localFileOfGeoMapChanged_def removeUnsupported_timer)
qed

lemma run_timer:
  "\<exists>t. autoUpdateTimer dm = Some t \<Longrightarrow> \<exists>t. autoUpdateTimer (run parses es dm) = Some t"
proof (induction es arbitrary: dm)
  case Nil
  then show ?case by simp
next
  case (Cons e es)
  from Cons.prems have "\<exists>t. autoUpdateTimer (slot parses e dm) = Some t"
    by (rule slot_timer)
  then show ?case using Cons.IH by simp
qed

subsection \<open>The auto-update schedule\<close>

text \<open>
  C7, as stated, fails. The time of the last refresh was recorded on day 100 at 0:00; the
  check fires on day 106 at 23:59:59.999. The recorded time lies more than 6 days in the
  past, by 6 days, 23 hours and 59 minutes, but the two dates are only 6 days apart:
  the timer is started with 24 hours and no download is started.
\<close>

theorem schedule_counterexample:
  "6 * 86400000 < msecsTo (DateTime 100 0) (DateTime 106 86399999)
   \<and> isValidDateTime (DateTime 100 0)
   \<and> autoUpdateGeoMapList (DateTime 106 86399999) (initial\<lparr>mapListTimeStamp := DateTime 100 0\<rparr>)
       = initial\<lparr>mapListTimeStamp := DateTime 100 0, autoUpdateTimer := Some (hours 24)\<rparr>
   \<and> maps_json_downloadsStarted
         (autoUpdateGeoMapList (DateTime 106 86399999) (initial\<lparr>mapListTimeStamp := DateTime 100 0\<rparr>))
       = 0
   \<and> \<not> maps_json_downloading
         (autoUpdateGeoMapList (DateTime 106 86399999) (initial\<lparr>mapListTimeStamp := DateTime 100 0\<rparr>))"
  by (simp add: autoUpdateGeoMapList_def isValidDateTime_def initial_def)

text \<open>
  C7, amended. On every firing of the auto-update check: if no valid time of the last
  manifest refresh is recorded, or the date of the recorded time lies more than 6 days
  before the current date (\<open>daysTo\<close>, the difference of the two calendar dates, is 7 or
  more; the times of day do not count), the timer is started with 1 hour and a manifest
  update is triggered (the manifest resource is downloading afterwards); otherwise the
  timer is started with 24 hours and nothing else changes. In every case the timer runs
  afterwards, and it keeps running whatever events follow, download errors included.
\<close>

theorem autoUpdateGeoMapList_schedule:
  "(\<not> isValidDateTime (mapListTimeStamp dm) \<or> 6 < daysTo (mapListTimeStamp dm) now \<longrightarrow>
      autoUpdateGeoMapList now dm = updateGeoMapList (dm\<lparr>autoUpdateTimer := Some (hours 1)\<rparr>)
      \<and> autoUpdateTimer (autoUpdateGeoMapList now dm) = Some (hours 1)
      \<and> maps_json_downloading (autoUpdateGeoMapList now dm))
   \<and> (isValidDateTime (mapListTimeStamp dm) \<and> daysTo (mapListTimeStamp dm) now \<le> 6 \<longrightarrow>
      autoUpdateGeoMapList now dm = dm\<lparr>autoUpdateTimer := Some (hours 24)\<rparr>)
   \<and> autoUpdateTimer (run parses es (autoUpdateGeoMapList now dm)) \<noteq> None"
proof (intro conjI impI)
  assume "\<not> isValidDateTime (mapListTimeStamp dm) \<or> 6 < daysTo (mapListTimeStamp dm) now"
  then show "autoUpdateGeoMapList now dm = updateGeoMapList (dm\<lparr>autoUpdateTimer := Some (hours 1)\<rparr>)"
    by (auto simp add: autoUpdateGeoMapList_def Let_def)
  then show "autoUpdateTimer (autoUpdateGeoMapList now dm) = Some (hours 1)"
    by (simp add: updateGeoMapList_def startFileDownload_def)
  show "maps_json_downloading (autoUpdateGeoMapList now dm)"
    using \<open>autoUpdateGeoMapList now dm = updateGeoMapList (dm\<lparr>autoUpdateTimer := Some (hours 1)\<rparr>)\<close>
    by (simp add: updateGeoMapList_def startFileDownload_def)
next
  assume "isValidDateTime (mapListTimeStamp dm) \<and> daysTo (mapListTimeStamp dm) now \<le> 6"
  then show "autoUpdateGeoMapList now dm = dm\<lparr>autoUpdateTimer := Some (hours 24)\<rparr>"
    by (simp add: autoUpdateGeoMapList_def Let_def)
next
  show "autoUpdateTimer (run parses es (autoUpdateGeoMapList now dm)) \<noteq> None"
    using run_timer [OF autoUpdateGeoMapList_timer, of parses es now dm] by auto
qed


theorem autoUpdateGeoMapList_schedule_witness:
  "6 < daysTo (DateTime 100 0) (DateTime 107 0)
   \<and> autoUpdateTimer (autoUpdateGeoMapList (DateTime 107 0)
         (initial\<lparr>mapListTimeStamp := DateTime 100 0\<rparr>)) = Some (hours 1)
   \<and> maps_json_downloading (autoUpdateGeoMapList (DateTime 107 0)
         (initial\<lparr>mapListTimeStamp := DateTime 100 0\<rparr>))
   \<and> isValidDateTime (DateTime 100 0) \<and> daysTo (DateTime 100 0) (DateTime 106 86399999) \<le> 6
   \<and> autoUpdateGeoMapList (DateTime 106 86399999) (initial\<lparr>mapListTimeStamp := DateTime 100 0\<rparr>)
       = initial\<lparr>mapListTimeStamp := DateTime 100 0, autoUpdateTimer := Some (hours 24)\<rparr>
   \<and> autoUpdateTimer (run (\<lambda>u. True) [DownloadError [] ''timeout'', Timeout (DateTime 107 3600000)]
         (autoUpdateGeoMapList (DateTime 107 0) (initial\<lparr>mapListTimeStamp := DateTime 100 0\<rparr>)))
       \<noteq> None"
proof -
  have h1: "6 < daysTo (mapListTimeStamp (initial\<lparr>mapListTimeStamp := DateTime 100 0\<rparr>))
                (DateTime 107 0)"
    by simp
  have h2: "isValidDateTime (mapListTimeStamp (initial\<lparr>mapListTimeStamp := DateTime 100 0\<rparr>))
      \<and> daysTo (mapListTimeStamp (initial\<lparr>mapListTimeStamp := DateTime 100 0\<rparr>))
           (DateTime 106 86399999) \<le> 6"
    by (simp add: isValidDateTime_def)
  have h3: "6 < daysTo (DateTime 100 0) (DateTime 107 0)
      \<and> isValidDateTime (DateTime 100 0) \<and> daysTo (DateTime 100 0) (DateTime 106 86399999) \<le> 6"
    by (simp add: isValidDateTime_def)
  have e: "initial\<lparr>mapListTimeStamp := DateTime 100 0\<rparr>\<lparr>autoUpdateTimer := Some (hours 24)\<rparr>
      = initial\<lparr>mapListTimeStamp := DateTime 100 0, autoUpdateTimer := Some (hours 24)\<rparr>"
    by simp
  from autoUpdateGeoMapList_schedule [of "initial\<lparr>mapListTimeStamp := DateTime 100 0\<rparr>"
      "DateTime 107 0" "\<lambda>u. True" "[DownloadError [] ''timeout'', Timeout (DateTime 107 3600000)]"]
    autoUpdateGeoMapList_schedule [of "initial\<lparr>mapListTimeStamp := DateTime 100 0\<rparr>"
      "DateTime 106 86399999" "\<lambda>u. True" "[]"] h1 h2 h3 e
  show ?thesis by metis
qed

text \<open>
  C10. Whenever the file content of the manifest resource changes after a download, also
  when the new content is not valid JSON, the recorded time of the last update is set to
  the current time and the timer is started with 24 hours. For content that does not
  parse nothing else changes, and a firing of the timer at most 6 days later leaves the
  state as it is: no download is started and the timer stays at 24 hours.
\<close>
theorem fileContentChanged_resets_schedule:
  "mapListTimeStamp (slot parses (FileContentChanged fileContent now) dm) = now
   \<and> autoUpdateTimer (slot parses (FileContentChanged fileContent now) dm) = Some (hours 24)
   \<and> slot parses (FileContentChanged Unparsable now) dm =
       dm\<lparr>maps_json_file := Some Unparsable, maps_json_downloading := False,
          mapListTimeStamp := now, autoUpdateTimer := Some (hours 24)\<rparr>
   \<and> (isValidDateTime now \<and> daysTo now later \<le> 6 \<longrightarrow>
       slot parses (Timeout later) (slot parses (FileContentChanged Unparsable now) dm) =
         slot parses (FileContentChanged Unparsable now) dm)"
proof (intro conjI impI)
  show "mapListTimeStamp (slot parses (FileContentChanged fileContent now) dm) = now"
    by (simp add: setTimeOfLastUpdateToNow_def)
  show "autoUpdateTimer (slot parses (FileContentChanged fileContent now) dm) = Some (hours 24)"
    by (simp add: setTimeOfLastUpdateToNow_def)
  show u: "slot parses (FileContentChanged Unparsable now) dm =
       dm\<lparr>maps_json_file := Some Unparsable, maps_json_downloading := False,
          mapListTimeStamp := now, autoUpdateTimer := Some (hours 24)\<rparr>"
    by (simp add: setTimeOfLastUpdateToNow_def readGeoMapListFromJSONFile_def)
  assume "isValidDateTime now \<and> daysTo now later \<le> 6"
  then show "slot parses (Timeout later) (slot parses (FileContentChanged Unparsable now) dm) =
         slot parses (FileContentChanged Unparsable now) dm"
    unfolding u by (simp add: autoUpdateGeoMapList_def Let_def)
qed

theorem fileContentChanged_resets_schedule_witness:
  "isValidDateTime (DateTime 100 0) \<and> daysTo (DateTime 100 0) (DateTime 101 0) \<le> 6
   \<and> mapListTimeStamp (slot (\<lambda>u. True) (FileContentChanged Unparsable (DateTime 100 0)) initial)
       = DateTime 100 0
   \<and> autoUpdateTimer (slot (\<lambda>u. True) (FileContentChanged Unparsable (DateTime 100 0)) initial)
       = Some (hours 24)
   \<and> slot (\<lambda>u. True) (Timeout (DateTime 101 0))
        (slot (\<lambda>u. True) (FileContentChanged Unparsable (DateTime 100 0)) initial)
       = slot (\<lambda>u. True) (FileContentChanged Unparsable (DateTime 100 0)) initial"
proof -
  have h: "isValidDateTime (DateTime 100 0) \<and> daysTo (DateTime 100 0) (DateTime 101 0) \<le> 6"
    by (simp add: isValidDateTime_def)
  from fileContentChanged_resets_schedule
         [of "\<lambda>u. True" Unparsable "DateTime 100 0" initial "DateTime 101 0"] h
  show ?thesis by blast
qed

subsection \<open>A manifest that does not parse\<close>

text \<open>
  C3, as stated, fails: after a parse failure no error signal has been emitted, neither by
  \<open>readGeoMapListFromJSONFile\<close> nor by the slots that run on \<open>fileContentChanged\<close>,
  whereas a failed download emits \<open>error\<close>.
\<close>
theorem parse_failure_counterexample:
  "maps_json_file (initial\<lparr>maps_json_file := Some Unparsable\<rparr>) = Some Unparsable
   \<and> emitted (readGeoMapListFromJSONFile (initial\<lparr>maps_json_file := Some Unparsable\<rparr>)) = []
   \<and> emitted (slot (\<lambda>u. True) (FileContentChanged Unparsable (DateTime 100 0)) initial) = []
   \<and> emitted (slot (\<lambda>u. True) (DownloadError ''maps.json'' ''Network error'') initial)
       = [Error ''Network error'']"
  by (simp add: readGeoMapListFromJSONFile_def initial_def setTimeOfLastUpdateToNow_def
      errorReceiver_def)

text \<open>
  C3, amended. If the content of the manifest file does not parse, the reconciliation
  leaves the whole state as it is: no object is created, changed or deleted and no group
  changes. The slots that run on \<open>fileContentChanged\<close> emit no signal for it; a failed
  download is reported by the signal \<open>error\<close> with its message.
\<close>

theorem parse_failure_aborts:
  "(maps_json_file dm = Some Unparsable \<longrightarrow> readGeoMapListFromJSONFile dm = dm)
   \<and> emitted (slot parses (FileContentChanged Unparsable now) dm) = emitted dm
   \<and> emitted (slot parses (DownloadError objectName' message) dm) = emitted dm @ [Error message]"
  by (simp add: readGeoMapListFromJSONFile_def setTimeOfLastUpdateToNow_def errorReceiver_def)

theorem parse_failure_aborts_witness:
  "maps_json_file (initial\<lparr>maps_json_file := Some Unparsable\<rparr>) = Some Unparsable
   \<and> readGeoMapListFromJSONFile (initial\<lparr>maps_json_file := Some Unparsable\<rparr>)
       = initial\<lparr>maps_json_file := Some Unparsable\<rparr>"
  using parse_failure_aborts [of "initial\<lparr>maps_json_file := Some Unparsable\<rparr>"]
  by simp


subsection \<open>The gate "network use accepted"\<close>

lemma deferredInitialization_installed:
  "deferredInitialization (DateTime 101 0) installed =
     installed\<lparr>connected := True, autoUpdateTimer := Some (hours 24)\<rparr>"
  by code_simp

text \<open>
  C8, as stated, fails. A manager is initialized with the gate accepted, a manifest on
  disk and a recent time stamp: no download is started. Then the setting changes to not
  accepted: the slot connected to \<open>acceptedTermsChanged\<close> starts a download although the
  gate is false. After that download has failed, the timer (started at initialization)
  fires a week later and starts another download, the gate still being false.
\<close>

theorem network_gate_counterexample:
  "maps_json_downloadsStarted (deferredInitialization (DateTime 101 0) installed) = 0
   \<and> acceptedTerms (run (\<lambda>u. True) [AcceptedTermsChanged False]
         (deferredInitialization (DateTime 101 0) installed)) = False
   \<and> maps_json_downloadsStarted (run (\<lambda>u. True) [AcceptedTermsChanged False]
         (deferredInitialization (DateTime 101 0) installed)) = 1
   \<and> acceptedTerms (run (\<lambda>u. True)
         [AcceptedTermsChanged False, DownloadError ''maps.json'' ''Network error'',
          Timeout (DateTime 108 0)]
         (deferredInitialization (DateTime 101 0) installed)) = False
   \<and> maps_json_downloadsStarted (run (\<lambda>u. True)
         [AcceptedTermsChanged False, DownloadError ''maps.json'' ''Network error'',
          Timeout (DateTime 108 0)]
         (deferredInitialization (DateTime 101 0) installed)) = 2"
  unfolding deferredInitialization_installed
    by (simp add: installed_def initial_def updateGeoMapList_def startFileDownload_def
        errorReceiver_def autoUpdateGeoMapList_def isValidDateTime_def)

text \<open>
  C8, amended. While the gate is false, \<open>deferredInitialization\<close> starts no download of
  the manifest and does not start the auto-update timer. The two slots that it connects
  do not read the gate. Once connected, a change of the setting starts a download,
  whatever the new value of the setting, unless a download is already running; and a
  firing of the timer starts a download, whatever the gate says, when no valid time of
  the last refresh is recorded or its date lies more than 6 days before the current
  date, unless a download is already running.
\<close>

theorem deferredInitialization_gate:
  "(\<not> acceptedTerms dm \<longrightarrow>
      maps_json_downloadsStarted (deferredInitialization now dm) = maps_json_downloadsStarted dm
      \<and> maps_json_downloading (deferredInitialization now dm) = maps_json_downloading dm
      \<and> autoUpdateTimer (deferredInitialization now dm) = autoUpdateTimer dm)
   \<and> (connected dm \<and> \<not> maps_json_downloading dm \<longrightarrow>
      maps_json_downloadsStarted (slot parses (AcceptedTermsChanged b) dm)
        = Suc (maps_json_downloadsStarted dm)
      \<and> acceptedTerms (slot parses (AcceptedTermsChanged b) dm) = b)
   \<and> (connected dm \<and> autoUpdateTimer dm \<noteq> None \<and> \<not> maps_json_downloading dm
       \<and> (\<not> isValidDateTime (mapListTimeStamp dm) \<or> 6 < daysTo (mapListTimeStamp dm) now) \<longrightarrow>
      maps_json_downloadsStarted (slot parses (Timeout now) dm)
        = Suc (maps_json_downloadsStarted dm)
      \<and> acceptedTerms (slot parses (Timeout now) dm) = acceptedTerms dm)"
proof (intro conjI impI)
  assume "\<not> acceptedTerms dm"
  then show "maps_json_downloadsStarted (deferredInitialization now dm) = maps_json_downloadsStarted dm"
    "maps_json_downloading (deferredInitialization now dm) = maps_json_downloading dm"
    "autoUpdateTimer (deferredInitialization now dm) = autoUpdateTimer dm"
    by (simp_all add: deferredInitialization_def Let_def readGeoMapListFromJSONFile_fields)
next
  assume "connected dm \<and> \<not> maps_json_downloading dm"
  then show "maps_json_downloadsStarted (slot parses (AcceptedTermsChanged b) dm)
        = Suc (maps_json_downloadsStarted dm)"
    "acceptedTerms (slot parses (AcceptedTermsChanged b) dm) = b"
    by (simp_all add: updateGeoMapList_def startFileDownload_def)
next
  assume a: "connected dm \<and> autoUpdateTimer dm \<noteq> None \<and> \<not> maps_json_downloading dm
       \<and> (\<not> isValidDateTime (mapListTimeStamp dm) \<or> 6 < daysTo (mapListTimeStamp dm) now)"
  then have "slot parses (Timeout now) dm = updateGeoMapList (dm\<lparr>autoUpdateTimer := Some (hours 1)\<rparr>)"
    by (auto simp add: autoUpdateGeoMapList_def Let_def)
  with a show "maps_json_downloadsStarted (slot parses (Timeout now) dm)
        = Suc (maps_json_downloadsStarted dm)"
    "acceptedTerms (slot parses (Timeout now) dm) = acceptedTerms dm"
    by (simp_all add: updateGeoMapList_def startFileDownload_def)
qed

theorem deferredInitialization_gate_witness:
  "\<not> acceptedTerms initial
   \<and> maps_json_downloadsStarted (deferredInitialization (DateTime 101 0) initial)
       = maps_json_downloadsStarted initial
   \<and> maps_json_downloading (deferredInitialization (DateTime 101 0) initial)
       = maps_json_downloading initial
   \<and> autoUpdateTimer (deferredInitialization (DateTime 101 0) initial) = autoUpdateTimer initial
   \<and> connected (deferredInitialization (DateTime 101 0) installed)
   \<and> \<not> maps_json_downloading (deferredInitialization (DateTime 101 0) installed)
   \<and> maps_json_downloadsStarted (slot (\<lambda>u. True) (AcceptedTermsChanged False)
         (deferredInitialization (DateTime 101 0) installed))
       = Suc (maps_json_downloadsStarted (deferredInitialization (DateTime 101 0) installed))
   \<and> acceptedTerms (slot (\<lambda>u. True) (AcceptedTermsChanged False)
         (deferredInitialization (DateTime 101 0) installed)) = False
   \<and> \<not> acceptedTerms (run (\<lambda>u. True)
         [AcceptedTermsChanged False, DownloadError ''maps.json'' ''Network error'']
         (deferredInitialization (DateTime 101 0) installed))
   \<and> 6 < daysTo (mapListTimeStamp (run (\<lambda>u. True)
         [AcceptedTermsChanged False, DownloadError ''maps.json'' ''Network error'']
         (deferredInitialization (DateTime 101 0) installed))) (DateTime 108 0)
   \<and> maps_json_downloadsStarted (slot (\<lambda>u. True) (Timeout (DateTime 108 0))
         (run (\<lambda>u. True)
           [AcceptedTermsChanged False, DownloadError ''maps.json'' ''Network error'']
           (deferredInitialization (DateTime 101 0) installed)))
       = Suc (maps_json_downloadsStarted (run (\<lambda>u. True)
           [AcceptedTermsChanged False, DownloadError ''maps.json'' ''Network error'']
           (deferredInitialization (DateTime 101 0) installed)))"
proof -
  let ?started = "deferredInitialization (DateTime 101 0) installed"
  let ?revoked = "run (\<lambda>u. True)
         [AcceptedTermsChanged False, DownloadError ''maps.json'' ''Network error''] ?started"
  have h1: "\<not> acceptedTerms initial" by (simp add: initial_def)
  have h2: "connected ?started \<and> \<not> maps_json_downloading ?started"
    unfolding deferredInitialization_installed
    by (simp add: installed_def initial_def updateGeoMapList_def startFileDownload_def
        errorReceiver_def autoUpdateGeoMapList_def isValidDateTime_def)
  have h3: "connected ?revoked \<and> autoUpdateTimer ?revoked \<noteq> None
      \<and> \<not> maps_json_downloading ?revoked
      \<and> (\<not> isValidDateTime (mapListTimeStamp ?revoked)
           \<or> 6 < daysTo (mapListTimeStamp ?revoked) (DateTime 108 0))"
    unfolding deferredInitialization_installed
    by (simp add: installed_def initial_def updateGeoMapList_def startFileDownload_def
        errorReceiver_def autoUpdateGeoMapList_def isValidDateTime_def)
  have h4: "\<not> acceptedTerms ?revoked \<and> 6 < daysTo (mapListTimeStamp ?revoked) (DateTime 108 0)"
    unfolding deferredInitialization_installed
    by (simp add: installed_def initial_def updateGeoMapList_def startFileDownload_def
        errorReceiver_def autoUpdateGeoMapList_def isValidDateTime_def)
  note c1 = deferredInitialization_gate
      [where dm = initial and now = "DateTime 101 0", THEN conjunct1, rule_format, OF h1]
  note c2 = deferredInitialization_gate
      [where dm = ?started and parses = "\<lambda>u. True" and b = False,
       THEN conjunct2, THEN conjunct1, rule_format, OF h2]
  note c3 = deferredInitialization_gate
      [where dm = ?revoked and parses = "\<lambda>u. True" and now = "DateTime 108 0",
       THEN conjunct2, THEN conjunct2, rule_format, OF h3]
  from h1 h2 h4 c1 c2 c3 show ?thesis by (intro conjI) (erule conjE | assumption)+
qed

section \<open>The reconciliation, step by step\<close>

subsection \<open>One entry of the manifest\<close>


lemma length_modify: "length (objects (modify p f dm)) = length (objects dm)"
  by (simp add: modify_def)


lemma modify_modify: "modify p f (modify p g dm) = modify p (f \<circ> g) dm"
  by (simp add: modify_def lookup_def option.map_comp)



lemma lookup_None_iff: "lookup dm p = None \<Longrightarrow> p < length (objects dm) \<Longrightarrow> objects dm ! p = None"
  by (simp add: lookup_def)


lemma handleMap_claim:
  assumes "findByObjectName dm oldMaps (mapObjectName m) = Some p"
  shows "handleMap baseURL m oldMaps dm = (removeAll p oldMaps, modify p (updated m) dm)"
proof -
  have "(\<lambda>d. d\<lparr>remoteFileSize := Some (mapSize m)\<rparr>) \<circ> (\<lambda>d. d\<lparr>remoteFileDate := mapDate m\<rparr>)
      = updated m"
    by (simp add: fun_eq_iff updated_def)
  then show ?thesis
    using assms
    by (simp add: handleMap_def Let_def mapObjectName_def mapFileName_def mapDate_def
        mapSize_def setRemoteFileSize_def setRemoteFileDate_def modify_modify)
qed

lemma modify_append:
  "modify (length os) f (dm\<lparr>objects := os @ [Some r]\<rparr>) = dm\<lparr>objects := os @ [Some (f r)]\<rparr>"
  by (simp add: modify_def lookup_def)

lemma handleMap_new:
  assumes "findByObjectName dm oldMaps (mapObjectName m) = None"
  shows "handleMap baseURL m oldMaps dm = (oldMaps, create baseURL m dm)"
proof -
  let ?p = "length (objects dm)"
  let ?f = "appDataLocation dm @ ''/aviation_maps/'' @ mapFileName m"
  let ?d5 = "dm\<lparr>objects := objects dm @ [Some (created baseURL (appDataLocation dm) m)]\<rparr>"
  have n: "newDownloadable (baseURL @ ''/'' @ mapFileName m) ?f dm =
      (?p, dm\<lparr>objects := objects dm @
            [Some \<lparr>objectName = [], section' = [], url = baseURL @ ''/'' @ mapFileName m,
                   fileName = ?f, remoteFileDate = InvalidDateTime, remoteFileSize = None\<rparr>]\<rparr>)"
    by (simp add: newDownloadable_def)
  have s: "setRemoteFileSize ?p (mapSize m)
        (setRemoteFileDate ?p (mapDate m)
          (setSection ?p (QString_section (QString_section (mapFileName m) CHR ''.'' (- 2) (- 2)) CHR ''/'' (- 2) (- 2))
            (setObjectName ?p (mapObjectName m)
              (dm\<lparr>objects := objects dm @
            [Some \<lparr>objectName = [], section' = [], url = baseURL @ ''/'' @ mapFileName m,
                   fileName = ?f, remoteFileDate = InvalidDateTime, remoteFileSize = None\<rparr>]\<rparr>)))) = ?d5"
    by (simp add: setRemoteFileSize_def setRemoteFileDate_def setSection_def setObjectName_def
        modify_append created_def)
  have c: "create baseURL m dm =
     (let dm6 = ?d5\<lparr>geoMaps := addToGroup ?p (geoMaps ?d5)\<rparr>;
          dm7 = (if endsWith ?f ''geojson''
                 then dm6\<lparr>aviationMaps := addToGroup ?p (aviationMaps dm6)\<rparr> else dm6);
          dm8 = (if endsWith ?f ''mbtiles''
                 then dm7\<lparr>baseMaps := addToGroup ?p (baseMaps dm7)\<rparr> else dm7)
      in (if endsWith ?f ''txt''
          then dm8\<lparr>databases := addToGroup ?p (databases dm8)\<rparr> else dm8))"
    by (simp add: create_def Let_def)
  show ?thesis
    apply (unfold handleMap_def Let_def)
    apply (fold mapFileName_def)
    apply (fold mapObjectName_def mapDate_def mapSize_def)
    apply (simp only: assms option.case n prod.case s)
    apply (simp only: c Let_def)
    done
qed

lemma create_simps:
  "objects (create b m dm) = objects dm @ [Some (created b (appDataLocation dm) m)]"
  "geoMaps (create b m dm) = addToGroup (length (objects dm)) (geoMaps dm)"
  "fileSystem (create b m dm) = fileSystem dm"
  "appDataLocation (create b m dm) = appDataLocation dm"
  by (simp_all add: create_def)





lemma handleMap_cases [case_names claim new]:
  obtains p where "findByObjectName dm old (mapObjectName m) = Some p"
      "handleMap b m old dm = (removeAll p old, modify p (updated m) dm)"
  | "findByObjectName dm old (mapObjectName m) = None"
      "handleMap b m old dm = (old, create b m dm)"
  using handleMap_claim handleMap_new
  by (cases "findByObjectName dm old (mapObjectName m)") auto


lemma wellFormed_modify: "wellFormed (modify p f dm) = wellFormed dm"
  by (simp add: wellFormed_def modify_def)

lemma wellFormed_create: "wellFormed dm \<Longrightarrow> wellFormed (create b m dm)"
  by (auto simp add: wellFormed_def create_simps addToGroup_def list_all_iff less_Suc_eq)




lemma handleMaps_length:
  "length (objects dm) \<le> length (objects (snd (handleMaps b ms old dm)))"
proof (induction ms arbitrary: old dm)
  case Nil
  show ?case by simp
next
  case (Cons m ms)
  show ?case
  proof (cases rule: handleMap_cases [of dm old m b])
    case (claim p)
    with Cons.IH [where old = "removeAll p old" and dm = "modify p (updated m) dm"] show ?thesis
      by (simp add: length_modify)
  next
    case new
    with Cons.IH [where old = old and dm = "create b m dm"] show ?thesis
      by (simp add: create_simps)
  qed
qed





subsection \<open>The loop over the entries\<close>

lemma handleMaps_appData:
  "appDataLocation (snd (handleMaps b ms old dm)) = appDataLocation dm"
  using frame_handleMaps [of b ms old dm] frame_fields(9) by metis

lemma handleMaps_fileSystem:
  "fileSystem (snd (handleMaps b ms old dm)) = fileSystem dm"
  using frame_handleMaps [of b ms old dm] frame_fields(8) by metis


lemma handleMaps_wellFormed:
  "wellFormed dm \<Longrightarrow> wellFormed (snd (handleMaps b ms old dm))"
proof (induction ms arbitrary: old dm)
  case Nil
  then show ?case by simp
next
  case (Cons m ms)
  show ?case
  proof (cases rule: handleMap_cases [of dm old m b])
    case (claim q)
    with Cons.IH [where old = "removeAll q old" and dm = "modify q (updated m) dm"] Cons.prems
    show ?thesis
      by (simp add: wellFormed_modify)
  next
    case new
    with Cons.IH [where old = old and dm = "create b m dm"] Cons.prems show ?thesis
      by (simp add: wellFormed_create)
  qed
qed





lemma assigned_cong: "lookup dm' p = lookup dm p \<Longrightarrow> assigned dm' p m = assigned dm p m"
  by (simp add: assigned_def)


subsection \<open>The leftover objects and the unattached files\<close>

lemma set_downloadables: "set (downloadables dm g) = {p \<in> set g. lookup dm p \<noteq> None}"
  by (simp add: downloadables_def)


lemma set_members: "set (members dm) = {p \<in> set (geoMaps dm). lookup dm p \<noteq> None}"
  by (simp add: members_def set_downloadables)

lemma hasFile_cong: "fileSystem dm' = fileSystem dm \<Longrightarrow> hasFile dm' d = hasFile dm d"
  by (simp add: hasFile_def)

lemma delete_simps:
  "fileSystem (delete p dm) = fileSystem dm"
  "appDataLocation (delete p dm) = appDataLocation dm"
  "geoMaps (delete p dm) = geoMaps dm"
  "length (objects (delete p dm)) = length (objects dm)"
  by (simp_all add: delete_def)

lemma deleteLeftover_simps:
  "fileSystem (deleteLeftover old dm) = fileSystem dm"
  "appDataLocation (deleteLeftover old dm) = appDataLocation dm"
  "geoMaps (deleteLeftover old dm) = geoMaps dm"
  "length (objects (deleteLeftover old dm)) = length (objects dm)"
  by (induction old arbitrary: dm) (simp_all add: delete_simps)

lemma wellFormed_deleteLeftover: "wellFormed (deleteLeftover old dm) = wellFormed dm"
  by (simp add: wellFormed_def deleteLeftover_simps)


lemma addUnattached_Cons:
  "addUnattached (path # paths) dm =
     addUnattached paths
       (dm\<lparr>objects := objects dm @ [Some (unattached (appDataLocation dm) path)],
           geoMaps := addToGroup (length (objects dm)) (geoMaps dm)\<rparr>)"
proof -
  let ?p = "length (objects dm)"
  have n: "newDownloadable [] path dm =
      (?p, dm\<lparr>objects := objects dm @
            [Some \<lparr>objectName = [], section' = [], url = [],
                   fileName = path, remoteFileDate = InvalidDateTime, remoteFileSize = None\<rparr>]\<rparr>)"
    by (simp add: newDownloadable_def)
  have s: "setObjectName ?p (QString_section (QString_remove path (appDataLocation dm @ ''/aviation_maps/'')) CHR ''.'' 0 0)
        (setSection ?p ''Unsupported Maps''
          (dm\<lparr>objects := objects dm @
            [Some \<lparr>objectName = [], section' = [], url = [],
                   fileName = path, remoteFileDate = InvalidDateTime, remoteFileSize = None\<rparr>]\<rparr>))
      = dm\<lparr>objects := objects dm @ [Some (unattached (appDataLocation dm) path)]\<rparr>"
    by (simp add: setSection_def setObjectName_def modify_append unattached_def)
  have g: "geoMaps (dm\<lparr>objects := objects dm @ [Some (unattached (appDataLocation dm) path)]\<rparr>)
      = geoMaps dm"
    by simp
  show ?thesis
    apply (subst addUnattached.simps)
    apply (unfold Let_def)
    apply (simp only: n prod.case s g)
    done
qed

lemma addUnattached_objects:
  "objects (addUnattached paths dm) =
     objects dm @ map (\<lambda>path. Some (unattached (appDataLocation dm) path)) paths"
proof (induction paths arbitrary: dm)
  case Nil
  show ?case by simp
next
  case (Cons path paths)
  show ?case
    by (simp only: addUnattached_Cons Cons.IH) simp
qed

lemma addUnattached_geoMaps:
  "wellFormed dm \<Longrightarrow>
   geoMaps (addUnattached paths dm) =
     geoMaps dm @ [length (objects dm) ..< length (objects (addUnattached paths dm))]"
proof (induction paths arbitrary: dm)
  case Nil
  show ?case by simp
next
  case (Cons path paths)
  let ?dm1 = "dm\<lparr>objects := objects dm @ [Some (unattached (appDataLocation dm) path)],
           geoMaps := addToGroup (length (objects dm)) (geoMaps dm)\<rparr>"
  let ?dm' = "addUnattached paths ?dm1"
  from Cons.prems have fresh: "length (objects dm) \<notin> set (geoMaps dm)"
    by (auto simp add: wellFormed_def list_all_iff)
  then have g1: "geoMaps ?dm1 = geoMaps dm @ [length (objects dm)]"
    by (simp add: addToGroup_def)
  have l1: "length (objects ?dm1) = Suc (length (objects dm))" by simp
  have le: "length (objects ?dm1) \<le> length (objects ?dm')"
    by (simp only: addUnattached_objects) simp
  from Cons.prems fresh have "wellFormed ?dm1"
    by (auto simp add: wellFormed_def list_all_iff addToGroup_def less_Suc_eq)
  then have "geoMaps ?dm' = geoMaps ?dm1 @ [length (objects ?dm1) ..< length (objects ?dm')]"
    by (rule Cons.IH)
  also have "\<dots> = geoMaps dm @ [length (objects dm) ..< length (objects ?dm')]"
    using le by (simp add: g1 l1 upt_conv_Cons)
  finally show ?case by (simp only: addUnattached_Cons)
qed

lemma addUnattached_length:
  "length (objects (addUnattached paths dm)) = length (objects dm) + length paths"
  by (simp add: addUnattached_objects)

lemma addUnattached_simps:
  "fileSystem (addUnattached paths dm) = fileSystem dm"
  "appDataLocation (addUnattached paths dm) = appDataLocation dm"
  using frame_addUnattached [of paths dm] frame_fields(8,9) by metis+


lemma lookup_addUnattached:
  "lookup (addUnattached paths dm) p =
     (if p < length (objects dm) then lookup dm p
      else if p < length (objects dm) + length paths
      then Some (unattached (appDataLocation dm) (paths ! (p - length (objects dm))))
      else None)"
  by (auto simp add: lookup_def addUnattached_objects nth_append)

lemma readGeoMapListFromJSONFile_Json:
  assumes "maps_json_file dm = Some (Json doc)"
  shows "readGeoMapListFromJSONFile dm =
     addUnattached
       (unattachedFiles
          (deleteLeftover (fst (handleMaps (manifestURL doc) (manifestMaps doc) (members dm) dm))
             (snd (handleMaps (manifestURL doc) (manifestMaps doc) (members dm) dm))))
       (deleteLeftover (fst (handleMaps (manifestURL doc) (manifestMaps doc) (members dm) dm))
          (snd (handleMaps (manifestURL doc) (manifestMaps doc) (members dm) dm)))"
  using assms
  by (simp add: readGeoMapListFromJSONFile_def Let_def case_prod_beta manifestURL_def
      manifestMaps_def members_def)



lemma ident_fileName: "map_option ident a = map_option ident b \<Longrightarrow>
  map_option fileName a = map_option fileName b"
  by (cases a; cases b) (auto simp add: ident_def)



lemma in_unattachedFiles:
  "path \<in> set (unattachedFiles dm) \<longleftrightarrow>
     path \<in> set (QDirIterator_Files (appDataLocation dm @ ''/aviation_maps'') (fileSystem dm))
     \<and> (\<forall>p\<in>set (members dm). fileName (obj dm p) \<noteq> path)"
  by (auto simp add: unattachedFiles_def list_ex_iff members_def)

lemma QDirIterator_Files_subset: "set (QDirIterator_Files dir files) \<subseteq> set files"
  by (auto simp add: QDirIterator_Files_def)

lemma readGeoMapListFromJSONFile_afterLeftover:
  "maps_json_file dm = Some (Json doc) \<Longrightarrow>
   readGeoMapListFromJSONFile dm =
     addUnattached (unattachedFiles (afterLeftover doc dm)) (afterLeftover doc dm)"
  by (simp add: readGeoMapListFromJSONFile_Json afterLeftover_def)

lemma afterLeftover_simps:
  "fileSystem (afterLeftover doc dm) = fileSystem dm"
  "appDataLocation (afterLeftover doc dm) = appDataLocation dm"
  "length (objects dm) \<le> length (objects (afterLeftover doc dm))"
  by (simp_all add: afterLeftover_def deleteLeftover_simps handleMaps_fileSystem
      handleMaps_appData handleMaps_length)

lemma wellFormed_afterLeftover: "wellFormed dm \<Longrightarrow> wellFormed (afterLeftover doc dm)"
  by (simp add: afterLeftover_def wellFormed_deleteLeftover handleMaps_wellFormed)

section \<open>Unattached files\<close>

lemma read_orphaned:
  "readGeoMapListFromJSONFile orphaned =
     orphaned\<lparr>objects := [Some (unattached ''/data'' ''/data/aviation_maps/orphan.mbtiles''),
                          Some (unattached ''/data'' ''/data/aviation_maps/africa/lakes.mbtiles'')],
              geoMaps := [0, 1]\<rparr>"
  by code_simp

lemma unattached_examples:
  "unattached ''/data'' ''/data/aviation_maps/orphan.mbtiles'' =
     \<lparr>objectName = ''orphan'', section' = ''Unsupported Maps'', url = [],
      fileName = ''/data/aviation_maps/orphan.mbtiles'',
      remoteFileDate = InvalidDateTime, remoteFileSize = None\<rparr>"
  "unattached ''/data'' ''/data/aviation_maps/africa/lakes.mbtiles'' =
     \<lparr>objectName = ''africa/lakes'', section' = ''Unsupported Maps'', url = [],
      fileName = ''/data/aviation_maps/africa/lakes.mbtiles'',
      remoteFileDate = InvalidDateTime, remoteFileSize = None\<rparr>"
  by code_simp+


text \<open>
  C9, as stated, fails. The cache directory holds orphan.mbtiles and africa/lakes.mbtiles,
  no object refers to them and the manifest lists no map. After the reconciliation the
  umbrella group has one object for each file, but the category of both is
  "Unsupported Maps", not "Unsupported", and the object for africa/lakes.mbtiles is named
  africa/lakes, which is not the stem of its file.
\<close>

theorem unattached_file_counterexample:
  "map (obj (readGeoMapListFromJSONFile orphaned)) (members (readGeoMapListFromJSONFile orphaned)) =
     [\<lparr>objectName = ''africa/lakes'', section' = ''Unsupported Maps'', url = [],
       fileName = ''/data/aviation_maps/africa/lakes.mbtiles'',
       remoteFileDate = InvalidDateTime, remoteFileSize = None\<rparr>,
      \<lparr>objectName = ''orphan'', section' = ''Unsupported Maps'', url = [],
       fileName = ''/data/aviation_maps/orphan.mbtiles'',
       remoteFileDate = InvalidDateTime, remoteFileSize = None\<rparr>]"
  unfolding read_orphaned unattached_examples by code_simp


text \<open>
  C9, amended. Let the manifest file exist and parse. Let the scan of the cache directory
  find a file (it lies below the cache directory and is not hidden) that, when the scan
  runs, is the local file of no member of the umbrella group; the scan runs after the
  entries of the manifest have been handled and the unmatched objects without a local
  file have been deleted. Then after the reconciliation the umbrella group has a newly
  created member for the file: its name is the path of the file with every occurrence
  of the text "<cache directory>/" removed and cut at the first dot (orphan for
  orphan.mbtiles in the cache directory itself, africa/lakes for africa/lakes.mbtiles),
  its category is "Unsupported Maps", its local file is the file, which exists, and its
  URL is empty and so invalid; no remote date and no remote size are set.
\<close>

theorem unattached_file_is_wrapped:
  assumes wf: "wellFormed dm"
    and doc: "maps_json_file dm = Some (Json doc)"
    and path: "path \<in> set (unattachedFiles (afterLeftover doc dm))"
  shows "\<exists>p\<in>set (members (readGeoMapListFromJSONFile dm)).
      length (objects dm) \<le> p
      \<and> objectName (obj (readGeoMapListFromJSONFile dm) p) =
          QString_section
            (QString_remove path (appDataLocation dm @ ''/aviation_maps/'')) CHR ''.'' 0 0
      \<and> section' (obj (readGeoMapListFromJSONFile dm) p) = ''Unsupported Maps''
      \<and> fileName (obj (readGeoMapListFromJSONFile dm) p) = path
      \<and> url (obj (readGeoMapListFromJSONFile dm) p) = []
      \<and> remoteFileDate (obj (readGeoMapListFromJSONFile dm) p) = InvalidDateTime
      \<and> remoteFileSize (obj (readGeoMapListFromJSONFile dm) p) = None
      \<and> hasFile (readGeoMapListFromJSONFile dm) (obj (readGeoMapListFromJSONFile dm) p)
      \<and> \<not> QUrl_isValid parses (url (obj (readGeoMapListFromJSONFile dm) p))"
proof -
  let ?dm2 = "afterLeftover doc dm"
  let ?U = "unattachedFiles ?dm2"
  let ?dm3 = "addUnattached ?U ?dm2"
  have r: "readGeoMapListFromJSONFile dm = ?dm3"
    using doc by (rule readGeoMapListFromJSONFile_afterLeftover)
  have wf2: "wellFormed ?dm2"
    using wf by (rule wellFormed_afterLeftover)
  from path have pfile: "path \<in> set (fileSystem dm)"
    using QDirIterator_Files_subset by (auto simp add: in_unattachedFiles afterLeftover_simps)
  from path obtain i where i: "i < length ?U" "?U ! i = path"
    by (auto simp add: in_set_conv_nth)
  let ?p = "length (objects ?dm2) + i"
  have look: "lookup ?dm3 ?p = Some (unattached (appDataLocation dm) path)"
    using i by (simp add: lookup_addUnattached afterLeftover_simps)
  have "?p \<in> set (geoMaps ?dm3)"
    using i by (simp add: addUnattached_geoMaps [OF wf2] addUnattached_length)
  with look have mem: "?p \<in> set (members ?dm3)" by (simp add: set_members)
  have o: "obj ?dm3 ?p = unattached (appDataLocation dm) path"
    using look by (simp add: obj_def)
  have h: "hasFile ?dm3 (obj ?dm3 ?p)"
    using pfile by (simp add: o hasFile_def addUnattached_simps afterLeftover_simps unattached_def)
  have u: "\<not> QUrl_isValid parses (url (obj ?dm3 ?p))"
    by (simp add: o unattached_def QUrl_isValid_def)
  have l: "length (objects dm) \<le> ?p"
    using afterLeftover_simps(3) [of dm doc] by simp
  have f: "objectName (obj ?dm3 ?p) =
          QString_section
            (QString_remove path (appDataLocation dm @ ''/aviation_maps/'')) CHR ''.'' 0 0"
    "section' (obj ?dm3 ?p) = ''Unsupported Maps''"
    "fileName (obj ?dm3 ?p) = path"
    "url (obj ?dm3 ?p) = []"
    "remoteFileDate (obj ?dm3 ?p) = InvalidDateTime"
    "remoteFileSize (obj ?dm3 ?p) = None"
    by (simp_all add: o unattached_def)
  from mem l f h u show ?thesis unfolding r by blast
qed

lemma lakes_moved_facts:
  "wellFormed lakes_moved"
  "''/data/aviation_maps/europe/lakes.geojson''
     \<in> set (unattachedFiles
          (afterLeftover
             (JObject [(''url'', JString ''https://maps.example''),
                       (''maps'', JArray [entry ''europe/lakes.geojson'' ''20230201'' 2000])])
             lakes_moved))"
  "members lakes_moved = [0]"
  "mapObjectName (entry ''europe/lakes.geojson'' ''20230201'' 2000) = objectName (obj lakes_moved 0)"
  "fileName (created ''https://maps.example'' (appDataLocation lakes_moved)
       (entry ''europe/lakes.geojson'' ''20230201'' 2000)) = ''/data/aviation_maps/europe/lakes.geojson''"
  "QString_section
     (QString_remove ''/data/aviation_maps/europe/lakes.geojson''
        (appDataLocation lakes_moved @ ''/aviation_maps/'')) CHR ''.'' 0 0 = ''europe/lakes''"
  by code_simp+

text \<open>
  The theorem at work where an entry of the manifest is matched by name: the entry
  europe/lakes.geojson carries the name of the member lakes, whose local file is
  africa/lakes.geojson, so no object is created for the entry, and the file
  europe/lakes.geojson is wrapped as the unsupported map europe/lakes.
\<close>

theorem unattached_file_is_wrapped_witness:
  "members lakes_moved = [0]
   \<and> mapObjectName (entry ''europe/lakes.geojson'' ''20230201'' 2000) = objectName (obj lakes_moved 0)
   \<and> fileName (created ''https://maps.example'' (appDataLocation lakes_moved)
       (entry ''europe/lakes.geojson'' ''20230201'' 2000)) = ''/data/aviation_maps/europe/lakes.geojson''
   \<and> (\<exists>p\<in>set (members (readGeoMapListFromJSONFile lakes_moved)).
      length (objects lakes_moved) \<le> p
      \<and> objectName (obj (readGeoMapListFromJSONFile lakes_moved) p) = ''europe/lakes''
      \<and> section' (obj (readGeoMapListFromJSONFile lakes_moved) p) = ''Unsupported Maps''
      \<and> fileName (obj (readGeoMapListFromJSONFile lakes_moved) p)
          = ''/data/aviation_maps/europe/lakes.geojson''
      \<and> url (obj (readGeoMapListFromJSONFile lakes_moved) p) = []
      \<and> remoteFileDate (obj (readGeoMapListFromJSONFile lakes_moved) p) = InvalidDateTime
      \<and> remoteFileSize (obj (readGeoMapListFromJSONFile lakes_moved) p) = None
      \<and> hasFile (readGeoMapListFromJSONFile lakes_moved) (obj (readGeoMapListFromJSONFile lakes_moved) p)
      \<and> \<not> QUrl_isValid (\<lambda>u. True) (url (obj (readGeoMapListFromJSONFile lakes_moved) p)))"
proof -
  have doc: "maps_json_file lakes_moved =
      Some (Json (JObject [(''url'', JString ''https://maps.example''),
                           (''maps'', JArray [entry ''europe/lakes.geojson'' ''20230201'' 2000])]))"
    by (simp add: lakes_moved_def manifest_def)
  from unattached_file_is_wrapped [OF lakes_moved_facts(1) doc lakes_moved_facts(2), of "\<lambda>u. True"]
  have "\<exists>p\<in>set (members (readGeoMapListFromJSONFile lakes_moved)).
      length (objects lakes_moved) \<le> p
      \<and> objectName (obj (readGeoMapListFromJSONFile lakes_moved) p) = ''europe/lakes''
      \<and> section' (obj (readGeoMapListFromJSONFile lakes_moved) p) = ''Unsupported Maps''
      \<and> fileName (obj (readGeoMapListFromJSONFile lakes_moved) p)
          = ''/data/aviation_maps/europe/lakes.geojson''
      \<and> url (obj (readGeoMapListFromJSONFile lakes_moved) p) = []
      \<and> remoteFileDate (obj (readGeoMapListFromJSONFile lakes_moved) p) = InvalidDateTime
      \<and> remoteFileSize (obj (readGeoMapListFromJSONFile lakes_moved) p) = None
      \<and> hasFile (readGeoMapListFromJSONFile lakes_moved) (obj (readGeoMapListFromJSONFile lakes_moved) p)
      \<and> \<not> QUrl_isValid (\<lambda>u. True) (url (obj (readGeoMapListFromJSONFile lakes_moved) p))"
    unfolding lakes_moved_facts(6) .
  with lakes_moved_facts(3,4,5) show ?thesis by (intro conjI)
qed

section \<open>A map that the manifest no longer lists\<close>

lemma read_X_offered:
  "readGeoMapListFromJSONFile X_offered =
     X_offered\<lparr>objects := [Some X_object], geoMaps := [0], aviationMaps := [0]\<rparr>"
  by code_simp

lemma read_X_withdrawn:
  "readGeoMapListFromJSONFile
     (X_offered\<lparr>objects := [Some X_object], geoMaps := [0], aviationMaps := [0],
                maps_json_file := Some (manifest [])\<rparr>) =
     X_offered\<lparr>objects := [Some X_object], geoMaps := [0], aviationMaps := [0],
                maps_json_file := Some (manifest [])\<rparr>"
  by code_simp


text \<open>
  C2. The manifest offers the map X and its file is installed; the reconciliation makes
  the object \<open>X_object\<close>. Then the manifest no longer lists X. The next reconciliation
  keeps the object, and its file is still there, but its URL is still the URL from
  the first manifest: the URL is not cleared.
\<close>

theorem unlisted_installed_map_keeps_url:
  "map (obj (readGeoMapListFromJSONFile X_offered)) (members (readGeoMapListFromJSONFile X_offered))
     = [X_object]
   \<and> hasFile X_offered X_object
   \<and> map (obj (readGeoMapListFromJSONFile
               ((readGeoMapListFromJSONFile X_offered)\<lparr>maps_json_file := Some (manifest [])\<rparr>)))
         (members (readGeoMapListFromJSONFile
               ((readGeoMapListFromJSONFile X_offered)\<lparr>maps_json_file := Some (manifest [])\<rparr>)))
     = [X_object]
   \<and> url X_object = ''https://maps.example/region/X.geojson''"
  unfolding read_X_offered read_X_withdrawn by code_simp

section \<open>Orphans\<close>












section \<open>The aggregator\<close>

lemma checkAndEmitSignals_justified:
  "n \<in> set (fst (checkAndEmitSignals f w)) \<Longrightarrow> justified f w n"
  by (cases n) (auto simp add: checkAndEmitSignals_def Let_def cleanUp_def split: if_splits)

lemma history_justified:
  "(w', ns) \<in> set (history f cs w) \<Longrightarrow> n \<in> set ns \<Longrightarrow> justified f w' n"
proof (induction cs arbitrary: w)
  case Nil
  then show ?case by simp
next
  case (Cons c cs)
  from Cons.prems(1) have
    "(w' = apply_change c w \<and> ns = fst (checkAndEmitSignals f (apply_change c w)))
     \<or> (w', ns) \<in> set (history f cs (snd (checkAndEmitSignals f (apply_change c w))))"
    by auto
  then show ?case
  proof
    assume "w' = apply_change c w \<and> ns = fst (checkAndEmitSignals f (apply_change c w))"
    with Cons.prems(2) show ?thesis by (simp add: checkAndEmitSignals_justified)
  next
    assume "(w', ns) \<in> set (history f cs (snd (checkAndEmitSignals f (apply_change c w))))"
    with Cons.IH Cons.prems(2) show ?thesis by blast
  qed
qed

text \<open>
  C6. For each of the five derived properties: when the freshly recomputed value equals
  the cached value, \<open>checkAndEmitSignals\<close> emits no change notification of that
  property. Across every sequence of additions, removals, state changes and
  destructions of members, starting from any state, every notification that is emitted
  carries the recomputed value, and that value differs from the value cached before.
\<close>

theorem no_notification_without_change:
  "(group_downloading (cleanUp w) = cachedDownloading w \<longrightarrow>
      (\<forall>b. downloadingChanged b \<notin> set (fst (checkAndEmitSignals f w))))
   \<and> (group_hasFile (cleanUp w) = cachedHasFile w \<longrightarrow>
      (\<forall>b. hasFileChanged b \<notin> set (fst (checkAndEmitSignals f w))))
   \<and> (group_updatable (cleanUp w) = cachedUpdatable w \<longrightarrow>
      (\<forall>b. updatableChanged b \<notin> set (fst (checkAndEmitSignals f w))))
   \<and> (group_files (cleanUp w) = cachedFiles w \<longrightarrow>
      (\<forall>fs. filesChanged fs \<notin> set (fst (checkAndEmitSignals f w))))
   \<and> (group_updateSize f (cleanUp w) = cachedUpdateSize w \<longrightarrow>
      (\<forall>s. updateSizeChanged s \<notin> set (fst (checkAndEmitSignals f w))))
   \<and> (\<forall>(w', ns)\<in>set (history f cs w). \<forall>n\<in>set ns. justified f w' n)"
proof (intro conjI impI allI)
  fix b
  assume "group_downloading (cleanUp w) = cachedDownloading w"
  then show "downloadingChanged b \<notin> set (fst (checkAndEmitSignals f w))"
    using checkAndEmitSignals_justified [of "downloadingChanged b" f w] by auto
next
  fix b
  assume "group_hasFile (cleanUp w) = cachedHasFile w"
  then show "hasFileChanged b \<notin> set (fst (checkAndEmitSignals f w))"
    using checkAndEmitSignals_justified [of "hasFileChanged b" f w] by auto
next
  fix b
  assume "group_updatable (cleanUp w) = cachedUpdatable w"
  then show "updatableChanged b \<notin> set (fst (checkAndEmitSignals f w))"
    using checkAndEmitSignals_justified [of "updatableChanged b" f w] by auto
next
  fix fs
  assume "group_files (cleanUp w) = cachedFiles w"
  then show "filesChanged fs \<notin> set (fst (checkAndEmitSignals f w))"
    using checkAndEmitSignals_justified [of "filesChanged fs" f w] by auto
next
  fix s
  assume "group_updateSize f (cleanUp w) = cachedUpdateSize w"
  then show "updateSizeChanged s \<notin> set (fst (checkAndEmitSignals f w))"
    using checkAndEmitSignals_justified [of "updateSizeChanged s" f w] by auto
next
  show "\<forall>(w', ns)\<in>set (history f cs w). \<forall>n\<in>set ns. justified f w' n"
    using history_justified by blast
qed

theorem no_notification_without_change_witness:
  "group_downloading (cleanUp twoMembers) = cachedDownloading twoMembers
   \<and> downloadingChanged True \<notin> set (fst (checkAndEmitSignals (\<lambda>n. ''1 kB'') twoMembers))
   \<and> group_hasFile (cleanUp twoMembers) = cachedHasFile twoMembers
   \<and> hasFileChanged True \<notin> set (fst (checkAndEmitSignals (\<lambda>n. ''1 kB'') twoMembers))
   \<and> group_updatable (cleanUp twoMembers) = cachedUpdatable twoMembers
   \<and> updatableChanged False \<notin> set (fst (checkAndEmitSignals (\<lambda>n. ''1 kB'') twoMembers))
   \<and> group_files (cleanUp twoMembers) = cachedFiles twoMembers
   \<and> filesChanged [''/data/aviation_maps/b.geojson'']
         \<notin> set (fst (checkAndEmitSignals (\<lambda>n. ''1 kB'') twoMembers))
   \<and> group_updateSize (\<lambda>n. ''1 kB'') (cleanUp twoMembers) = cachedUpdateSize twoMembers
   \<and> updateSizeChanged [] \<notin> set (fst (checkAndEmitSignals (\<lambda>n. ''1 kB'') twoMembers))
   \<and> (apply_change (Destroyed 1) twoMembers, [hasFileChanged False, filesChanged []])
         \<in> set (history (\<lambda>n. ''1 kB'') [Destroyed 1] twoMembers)
   \<and> justified (\<lambda>n. ''1 kB'') (apply_change (Destroyed 1) twoMembers) (hasFileChanged False)
   \<and> justified (\<lambda>n. ''1 kB'') (apply_change (Destroyed 1) twoMembers) (filesChanged [])"
proof -
  let ?f = "\<lambda>n::nat. ''1 kB''"
  note t = no_notification_without_change
    [where w = twoMembers and f = ?f and cs = "[Destroyed 1]"]
  have h1: "group_downloading (cleanUp twoMembers) = cachedDownloading twoMembers"
    by code_simp
  have h2: "group_hasFile (cleanUp twoMembers) = cachedHasFile twoMembers"
    by code_simp
  have h3: "group_updatable (cleanUp twoMembers) = cachedUpdatable twoMembers"
    by code_simp
  have h4: "group_files (cleanUp twoMembers) = cachedFiles twoMembers"
    by code_simp
  have h5: "group_updateSize ?f (cleanUp twoMembers) = cachedUpdateSize twoMembers"
    by code_simp
  have m: "(apply_change (Destroyed 1) twoMembers, [hasFileChanged False, filesChanged []])
     \<in> set (history ?f [Destroyed 1] twoMembers)"
    by code_simp
  note c1 = t [THEN conjunct1, rule_format, OF h1]
  note c2 = t [THEN conjunct2, THEN conjunct1, rule_format, OF h2]
  note c3 = t [THEN conjunct2, THEN conjunct2, THEN conjunct1, rule_format, OF h3]
  note c4 = t [THEN conjunct2, THEN conjunct2, THEN conjunct2, THEN conjunct1, rule_format, OF h4]
  note c5 = t [THEN conjunct2, THEN conjunct2, THEN conjunct2, THEN conjunct2, THEN conjunct1,
    rule_format, OF h5]
  note c6 = t [THEN conjunct2, THEN conjunct2, THEN conjunct2, THEN conjunct2, THEN conjunct2]
  have j:
    "\<forall>n\<in>set [hasFileChanged False, filesChanged []].
       justified ?f (apply_change (Destroyed 1) twoMembers) n"
    using bspec [OF c6 m] by (simp only: prod.case)
  have j1: "justified ?f (apply_change (Destroyed 1) twoMembers) (hasFileChanged False)"
    using j by simp
  have j2: "justified ?f (apply_change (Destroyed 1) twoMembers) (filesChanged [])"
    using j by simp
  show ?thesis
    by (intro conjI) (rule h1 h2 h3 h4 h5 c1 c2 c3 c4 c5 m j1 j2)+
qed

lemma aggregator_reaches_twoMembers:
  "snd (checkAndEmitSignals (\<lambda>n. ''1 kB'')
     (apply_change (StateChange 1 (resourceB\<lparr>transferState := Downloading\<rparr>))
       (snd (checkAndEmitSignals (\<lambda>n. ''1 kB'')
         (apply_change (Add resourceB)
           (snd (checkAndEmitSignals (\<lambda>n. ''1 kB'') (apply_change (Add resourceA) emptyGroup))))))))
   = twoMembers"
  by code_simp

lemma aggregator_example:
  "map snd (history (\<lambda>n. ''1 kB'')
       [Add resourceA, Add resourceB, StateChange 1 (resourceB\<lparr>transferState := Downloading\<rparr>),
        StateChange 0 (resourceA\<lparr>transferState := Idle, hasLocalFile := True\<rparr>),
        StateChange 1 resourceB, Destroyed 0, Remove 1]
       emptyGroup)
     = [[downloadingChanged True],
        [hasFileChanged True, filesChanged [''/data/aviation_maps/b.geojson'']],
        [],
        [filesChanged [''/data/aviation_maps/a.geojson'', ''/data/aviation_maps/b.geojson'']],
        [downloadingChanged False],
        [filesChanged [''/data/aviation_maps/b.geojson'']],
        []]"
  by code_simp

section \<open>The members after a reconciliation\<close>

















section \<open>A second pass over the same manifest\<close>











end
